theory Spec2Isabelle
  imports Main "HOL-Library.Word" "HOL-Library.AList"
begin

section \<open>Go and C values\<close>

text \<open>
  The package \<open>bcc\<close> moves raw bytes between Go slices and the kernel's BPF maps through
  cgo. A Go \<open>[]byte\<close> is a list of 8-bit words, \<open>C.size_t\<close> and \<open>uintptr\<close> are 64-bit
  words (linux/amd64), a C \<open>int\<close> result is an integer that the code only compares with 0.
\<close>

type_synonym byte = "8 word"
type_synonym bytes = "byte list"
type_synonym size_t = "64 word"
type_synonym uintptr = "64 word"

text \<open>
  Run-time failures of the Go code are outcomes of the model: a function either ends in
  a fault or returns. \<open>IndexOutOfRange\<close> is the panic of \<open>&s[0]\<close> on an empty slice,
  \<open>SliceBoundsOutOfRange\<close> the panic of \<open>s[:i]\<close> with \<open>i\<close> outside \<open>0..len(s)\<close>,
  \<open>MakeSliceLenOutOfRange\<close> the panic of \<open>make\<close>. The last two are not panics but
  undefined behaviour: \<open>UnsafeRead\<close> marks a read through an \<open>unsafe.Pointer\<close> that
  leaves the buffer, \<open>UseAfterFree\<close> a read of C memory that has been released.
\<close>

datatype fault =
    IndexOutOfRange
  | SliceBoundsOutOfRange
  | MakeSliceLenOutOfRange
  | UnsafeRead
  | UseAfterFree

datatype 'a outcome = Fault fault | Return 'a

text \<open>
  cgo returns \<open>errno\<close> as the second result of a C call: \<open>nil\<close> when \<open>errno\<close> is 0 after
  the call, \<open>syscall.Errno(errno)\<close> otherwise.
\<close>

type_synonym errno = nat

definition ENOENT :: errno where
  "ENOENT = 2"

text \<open>
  How an error message renders a key or a leaf: the text of the table's formatter, or the
  raw bytes (\<open>fmt.Sprintf("%v", key)\<close>) when the formatter failed.
\<close>

datatype rendering = Formatted string | RawBytes bytes

datatype go_error =
    Errno errno
  | ErrIterationFailed
  | ErrPossibleCpus string
  | ErrFormatKey int
  | ErrFormatLeaf int
  | ErrTableGet rendering errno
  | ErrTableSet rendering rendering errno
  | ErrTableDelete rendering errno
  | ErrLocateSymbol string string
  | ErrListSymbols string
  | ErrInvalidRegex string string

definition cgo_err :: "errno \<Rightarrow> go_error option" where
  "cgo_err e = (if e = 0 then None else Some (Errno e))"

text \<open>
  \<open>os.IsNotExist\<close>: false for \<open>nil\<close>; for a \<open>syscall.Errno\<close> it is true exactly for
  \<open>ENOENT\<close>; the other errors of this package are never passed to it.
\<close>

fun IsNotExist :: "go_error option \<Rightarrow> bool" where
  "IsNotExist (Some (Errno e)) = (e = ENOENT)"
| "IsNotExist _ = False"

text \<open>
  \<open>make([]byte, n)\<close> for an unsigned 64-bit \<open>n\<close>: a zeroed slice, or the panic of the
  runtime when \<open>n\<close> exceeds \<open>maxAlloc\<close> (2^48 on linux/amd64).
\<close>

definition maxAlloc :: nat where
  "maxAlloc = 2 ^ 48"

definition make_bytes :: "size_t \<Rightarrow> bytes outcome" where
  "make_bytes n =
     (if unat n > maxAlloc then Fault MakeSliceLenOutOfRange
      else Return (replicate (unat n) 0))"

text \<open>
  C code that is handed a pointer into a Go slice writes \<open>out\<close> from the start of the
  buffer. The slice keeps its length: what the model sees afterwards are the first
  \<open>length buf\<close> bytes.
\<close>

definition write_buf :: "bytes \<Rightarrow> bytes \<Rightarrow> bytes" where
  "write_buf buf out = take (length buf) (out @ drop (length out) buf)"

text \<open>\<open>bytes.IndexByte\<close>: the index of the first \<open>c\<close> in \<open>b\<close>, or -1.\<close>

fun IndexByte :: "bytes \<Rightarrow> byte \<Rightarrow> int" where
  "IndexByte [] c = -1"
| "IndexByte (b # bs) c =
     (if b = c then 0
      else (let r = IndexByte bs c in if r < 0 then -1 else r + 1))"

text \<open>\<open>string(b)\<close> of a byte slice: the same bytes as characters.\<close>

definition string_of_bytes :: "bytes \<Rightarrow> string" where
  "string_of_bytes bs = map (\<lambda>b. char_of (unat b)) bs"

section \<open>Tables\<close>

text \<open>
  A \<open>Table\<close> is a handle on one BPF map of a loaded module. What the code asks the module
  about the table (through libbcc, at every call) are fields of the record: the file
  descriptor \<open>bpf_table_fd_id\<close>, the sizes \<open>bpf_table_key_size_id\<close> and
  \<open>bpf_table_leaf_size_id\<close>, the map type \<open>bpf_table_type_id\<close> and the two formatters
  \<open>bpf_table_key_snprintf\<close> and \<open>bpf_table_leaf_snprintf\<close>. A formatter is given the bytes
  behind the key pointer and the size of the output buffer; it answers with its result
  code and the bytes it wrote. \<open>fd\<close> is the descriptor \<open>NewTable\<close> stored in the handle.
\<close>

record table =
  fd :: int
  table_fd_id :: int
  key_size :: size_t
  leaf_size :: size_t
  map_type :: nat
  key_snprintf :: "bytes \<Rightarrow> nat \<Rightarrow> int \<times> bytes"
  leaf_snprintf :: "bytes \<Rightarrow> nat \<Rightarrow> int \<times> bytes"

definition BPF_MAP_TYPE_PERCPU_HASH :: nat where
  "BPF_MAP_TYPE_PERCPU_HASH = 5"

definition BPF_MAP_TYPE_PERCPU_ARRAY :: nat where
  "BPF_MAP_TYPE_PERCPU_ARRAY = 6"

text \<open>
  \<open>Table.KeyBytesToStr\<close> (table.go 147-159) and \<open>Table.LeafBytesToStr\<close> (162-174).
  The output buffer has 8 bytes per input byte and starts zeroed.
\<close>

definition KeyBytesToStr :: "table \<Rightarrow> bytes \<Rightarrow> (go_error + string) outcome" where
  "KeyBytesToStr t key =
     (let keySize = length key in
      if key = [] then Fault IndexOutOfRange
      else
        (let keyStr0 = replicate (keySize * 8) (0 :: byte) in
         if keyStr0 = [] then Fault IndexOutOfRange
         else
           (case key_snprintf t key (length keyStr0) of
              (res, written) \<Rightarrow>
                (let keyStr = write_buf keyStr0 written in
                 if res \<noteq> 0 then Return (Inl (ErrFormatKey res))
                 else
                   (let i = IndexByte keyStr 0 in
                    if i < 0 \<or> i > int (length keyStr) then Fault SliceBoundsOutOfRange
                    else Return (Inr (string_of_bytes (take (nat i) keyStr))))))))"

definition LeafBytesToStr :: "table \<Rightarrow> bytes \<Rightarrow> (go_error + string) outcome" where
  "LeafBytesToStr t leaf =
     (let leafSize = length leaf in
      if leaf = [] then Fault IndexOutOfRange
      else
        (let leafStr0 = replicate (leafSize * 8) (0 :: byte) in
         if leafStr0 = [] then Fault IndexOutOfRange
         else
           (case leaf_snprintf t leaf (length leafStr0) of
              (res, written) \<Rightarrow>
                (let leafStr = write_buf leafStr0 written in
                 if res \<noteq> 0 then Return (Inl (ErrFormatLeaf res))
                 else
                   (let i = IndexByte leafStr 0 in
                    if i < 0 \<or> i > int (length leafStr) then Fault SliceBoundsOutOfRange
                    else Return (Inr (string_of_bytes (take (nat i) leafStr))))))))"

text \<open>The buffers the two functions slice, as the formatter left them.\<close>

definition key_buffer :: "table \<Rightarrow> bytes \<Rightarrow> bytes" where
  "key_buffer t key =
     write_buf (replicate (length key * 8) 0) (snd (key_snprintf t key (length key * 8)))"

definition leaf_buffer :: "table \<Rightarrow> bytes \<Rightarrow> bytes" where
  "leaf_buffer t leaf =
     write_buf (replicate (length leaf * 8) 0) (snd (leaf_snprintf t leaf (length leaf * 8)))"

section \<open>The kernel behind cgo\<close>

text \<open>
  The map lives in the kernel; the code reaches it through five libbpf calls. A call is
  recorded with the descriptor and the bytes behind each pointer argument. The kernel is a
  parameter of the model: a function from its state and a call to the answer (result
  code, \<open>errno\<close>, bytes written through the output pointer) and its next state. The world
  of a Go function is the trace of the calls issued so far and the kernel's state, so a
  theorem can say which calls a function did or did not issue.
\<close>

datatype kcall =
    LookupElem int bytes bytes
  | UpdateElem int bytes bytes nat
  | DeleteElem int bytes
  | GetFirstKey int bytes size_t
  | GetNextKey int bytes

type_synonym kresp = "int \<times> errno \<times> bytes"
type_synonym 'k kernel = "'k \<Rightarrow> kcall \<Rightarrow> kresp \<times> 'k"
type_synonym 'k world = "kcall list \<times> 'k"

definition cgo_call :: "'k kernel \<Rightarrow> kcall \<Rightarrow> 'k world \<Rightarrow> kresp \<times> 'k world" where
  "cgo_call K c w = (case K (snd w) c of (r, s') \<Rightarrow> (r, (fst w @ [c], s')))"

text \<open>
  \<open>cpupossible.Get()\<close> belongs to a package of the repository that is not among the
  sources: its answer at the time of a call (an error text, or the list of possible CPUs)
  is a parameter of every function that asks for it.
\<close>

type_synonym cpus = "string + nat list"

text \<open>
  The leaf size of a call (the \<open>switch mapType\<close> block of \<open>Get\<close>, \<open>GetP\<close> and \<open>Next\<close>): for
  the two per-CPU map types the size of the descriptor is multiplied, in \<open>C.size_t\<close>, by
  the number of possible CPUs.
\<close>

definition expand_leaf_size :: "table \<Rightarrow> cpus \<Rightarrow> go_error + size_t" where
  "expand_leaf_size t cs =
     (if map_type t = BPF_MAP_TYPE_PERCPU_HASH \<or> map_type t = BPF_MAP_TYPE_PERCPU_ARRAY
      then (case cs of
              Inl e \<Rightarrow> Inl (ErrPossibleCpus e)
            | Inr l \<Rightarrow> Inr (leaf_size t * of_nat (length l)))
      else Inr (leaf_size t))"

text \<open>The key and the leaf of an error message: formatted, or raw when formatting fails.\<close>

definition render_key :: "table \<Rightarrow> bytes \<Rightarrow> rendering outcome" where
  "render_key t key =
     (case KeyBytesToStr t key of
        Fault f \<Rightarrow> Fault f
      | Return (Inl errK) \<Rightarrow> Return (RawBytes key)
      | Return (Inr keyStr) \<Rightarrow> Return (Formatted keyStr))"

definition render_leaf :: "table \<Rightarrow> bytes \<Rightarrow> rendering outcome" where
  "render_leaf t leaf =
     (case LeafBytesToStr t leaf of
        Fault f \<Rightarrow> Fault f
      | Return (Inl errL) \<Rightarrow> Return (RawBytes leaf)
      | Return (Inr leafStr) \<Rightarrow> Return (Formatted leafStr))"

text \<open>\<open>Table.Get\<close> (table.go 177-206).\<close>

definition Get ::
  "'k kernel \<Rightarrow> table \<Rightarrow> cpus \<Rightarrow> bytes \<Rightarrow> 'k world \<Rightarrow> ((go_error + bytes) \<times> 'k world) outcome"
where
  "Get K t cs key w =
     (if key = [] then Fault IndexOutOfRange
      else
        (case expand_leaf_size t cs of
           Inl err \<Rightarrow> Return (Inl err, w)
         | Inr leafSize \<Rightarrow>
             (case make_bytes leafSize of
                Fault f \<Rightarrow> Fault f
              | Return leaf0 \<Rightarrow>
                  if leaf0 = [] then Fault IndexOutOfRange
                  else
                    (case cgo_call K (LookupElem (table_fd_id t) key leaf0) w of
                       ((r, e, out), w1) \<Rightarrow>
                         if r \<noteq> 0 then
                           (case render_key t key of
                              Fault f \<Rightarrow> Fault f
                            | Return keyStr \<Rightarrow> Return (Inl (ErrTableGet keyStr e), w1))
                         else Return (Inr (write_buf leaf0 out), w1)))))"

text \<open>\<open>Table.Set\<close> (table.go 233-254); the flag of the update is 0.\<close>

definition Set ::
  "'k kernel \<Rightarrow> table \<Rightarrow> bytes \<Rightarrow> bytes \<Rightarrow> 'k world \<Rightarrow> (go_error option \<times> 'k world) outcome"
where
  "Set K t key leaf w =
     (if key = [] then Fault IndexOutOfRange
      else if leaf = [] then Fault IndexOutOfRange
      else
        (case cgo_call K (UpdateElem (table_fd_id t) key leaf 0) w of
           ((r, e, out), w1) \<Rightarrow>
             if r \<noteq> 0 then
               (case render_key t key of
                  Fault f \<Rightarrow> Fault f
                | Return keyStr \<Rightarrow>
                    (case render_leaf t leaf of
                       Fault f \<Rightarrow> Fault f
                     | Return leafStr \<Rightarrow> Return (Some (ErrTableSet keyStr leafStr e), w1)))
             else Return (None, w1)))"

text \<open>
  \<open>Table.GetP\<close> (table.go 209-230) takes the key as an \<open>unsafe.Pointer\<close>: the model takes
  the bytes behind it. It tests the \<open>errno\<close> of the lookup, not its result code.
\<close>

definition GetP ::
  "'k kernel \<Rightarrow> table \<Rightarrow> cpus \<Rightarrow> bytes \<Rightarrow> 'k world \<Rightarrow> ((go_error + bytes) \<times> 'k world) outcome"
where
  "GetP K t cs key w =
     (case expand_leaf_size t cs of
        Inl err \<Rightarrow> Return (Inl err, w)
      | Inr leafSize \<Rightarrow>
          (case make_bytes leafSize of
             Fault f \<Rightarrow> Fault f
           | Return leaf0 \<Rightarrow>
               if leaf0 = [] then Fault IndexOutOfRange
               else
                 (case cgo_call K (LookupElem (table_fd_id t) key leaf0) w of
                    ((r, e, out), w1) \<Rightarrow>
                      (case cgo_err e of
                         Some err \<Rightarrow> Return (Inl err, w1)
                       | None \<Rightarrow> Return (Inr (write_buf leaf0 out), w1)))))"

text \<open>\<open>Table.Remove\<close> (table.go 370-373) deletes through the descriptor of the handle.\<close>

definition Remove :: "'k kernel \<Rightarrow> table \<Rightarrow> bytes \<Rightarrow> 'k world \<Rightarrow> go_error option \<times> 'k world" where
  "Remove K t key w =
     (case cgo_call K (DeleteElem (fd t) key) w of
        ((r, e, out), w1) \<Rightarrow> (cgo_err e, w1))"

section \<open>Stack traces\<close>

text \<open>
  \<open>&stackId\<close> points at a Go \<open>int\<close>: eight bytes, least significant first. A leaf of the
  stack map is read as \<open>struct stacktrace_t\<close>, an array of 127 addresses of eight bytes
  each; \<open>stack_ip leaf i\<close> is \<open>stack.ip[i]\<close>, and \<open>None\<close> where the array entry lies outside
  the buffer that \<open>GetP\<close> allocated.
\<close>

definition BPF_MAX_STACK_DEPTH :: nat where
  "BPF_MAX_STACK_DEPTH = 127"

definition int_bytes :: "int \<Rightarrow> bytes" where
  "int_bytes n = map (\<lambda>i. word_of_int (n div 2 ^ (8 * i))) [0..<8]"

definition le_word :: "bytes \<Rightarrow> uintptr" where
  "le_word bs = foldr (\<lambda>b acc. ucast b + 256 * acc) bs 0"

definition stack_ip :: "bytes \<Rightarrow> nat \<Rightarrow> uintptr option" where
  "stack_ip leaf i =
     (if 8 * i + 8 \<le> length leaf then Some (le_word (take 8 (drop (8 * i) leaf))) else None)"

text \<open>The loop of \<open>GetStackAddr\<close> (table.go 334-336).\<close>

function stack_loop :: "bytes \<Rightarrow> nat \<Rightarrow> uintptr list \<Rightarrow> uintptr list outcome" where
  "stack_loop leaf i res =
     (if i < BPF_MAX_STACK_DEPTH then
        (case stack_ip leaf i of
           None \<Rightarrow> Fault UnsafeRead
         | Some a \<Rightarrow> if a \<noteq> 0 then stack_loop leaf (i + 1) (res @ [a]) else Return res)
      else Return res)"
  by pat_completeness auto
termination
  by (relation "measure (\<lambda>(leaf, i, res). BPF_MAX_STACK_DEPTH - i)") auto

declare stack_loop.simps [simp del]

text \<open>\<open>Table.ClearStackId\<close> (table.go 314-318).\<close>

definition ClearStackId :: "'k kernel \<Rightarrow> table \<Rightarrow> int \<Rightarrow> 'k world \<Rightarrow> 'k world" where
  "ClearStackId K t stackId w =
     (if stackId > 0 then snd (Remove K t (int_bytes stackId) w) else w)"

text \<open>\<open>Table.GetStackAddr\<close> (table.go 320-341).\<close>

definition GetStackAddr ::
  "'k kernel \<Rightarrow> table \<Rightarrow> cpus \<Rightarrow> int \<Rightarrow> bool \<Rightarrow> 'k world \<Rightarrow> (uintptr list \<times> 'k world) outcome"
where
  "GetStackAddr K t cs stackId clear w =
     (if stackId < 0 then Return ([], w)
      else
        (case GetP K t cs (int_bytes stackId) w of
           Fault f \<Rightarrow> Fault f
         | Return (Inl err, w1) \<Rightarrow> Return ([], w1)
         | Return (Inr leaf, w1) \<Rightarrow>
             (case stack_loop leaf 0 [] of
                Fault f \<Rightarrow> Fault f
              | Return res \<Rightarrow>
                  if clear then Return (res, snd (Remove K t (int_bytes stackId) w1))
                  else Return (res, w1))))"

section \<open>Iteration\<close>

text \<open>
  \<open>TableIterator\<close> (table.go 390-398). A \<open>nil\<close> slice is \<open>None\<close>. The table of the
  iterator is a parameter of \<open>Next\<close>, which asks it for the sizes at every call.
\<close>

record TableIterator =
  it_fd :: int
  it_err :: "go_error option"
  it_key :: "bytes option"
  it_leaf :: "bytes option"

definition Iter :: "table \<Rightarrow> TableIterator" where
  "Iter t = \<lparr>it_fd = table_fd_id t, it_err = None, it_key = None, it_leaf = None\<rparr>"

text \<open>
  The end of \<open>Next\<close> (table.go 453-463): the lookup of the leaf of the key the iterator
  stands on. The kernel writes into the leaf buffer of the iterator.
\<close>

definition Next_lookup ::
  "'k kernel \<Rightarrow> TableIterator \<Rightarrow> 'k world \<Rightarrow> (bool \<times> TableIterator \<times> 'k world) outcome"
where
  "Next_lookup K it w =
     (case it_key it of
        None \<Rightarrow> Fault IndexOutOfRange
      | Some key \<Rightarrow>
          if key = [] then Fault IndexOutOfRange
          else
            (case it_leaf it of
               None \<Rightarrow> Fault IndexOutOfRange
             | Some leaf \<Rightarrow>
                 if leaf = [] then Fault IndexOutOfRange
                 else
                   (case cgo_call K (LookupElem (it_fd it) key leaf) w of
                      ((r, e, out), w1) \<Rightarrow>
                        (let it1 = it\<lparr>it_leaf := Some (write_buf leaf out)\<rparr> in
                         if r \<noteq> 0 then
                           Return (False,
                             it1\<lparr>it_err :=
                                   (if \<not> IsNotExist (cgo_err e) then cgo_err e
                                    else Some ErrIterationFailed)\<rparr>,
                             w1)
                         else Return (True, it1, w1)))))"

text \<open>\<open>TableIterator.Next\<close> (table.go 411-464).\<close>

definition Next ::
  "'k kernel \<Rightarrow> table \<Rightarrow> cpus \<Rightarrow> TableIterator \<Rightarrow> 'k world \<Rightarrow>
     (bool \<times> TableIterator \<times> 'k world) outcome"
where
  "Next K t cs it w =
     (if it_err it \<noteq> None then Return (False, it, w)
      else
        (case it_key it of
           None \<Rightarrow>
             (case make_bytes (key_size t) of
                Fault f \<Rightarrow> Fault f
              | Return key0 \<Rightarrow>
                  if key0 = [] then Fault IndexOutOfRange
                  else
                    (case cgo_call K (GetFirstKey (it_fd it) key0 (key_size t)) w of
                       ((r, e, out), w1) \<Rightarrow>
                         if r \<noteq> 0 then
                           Return (False,
                             (if \<not> IsNotExist (cgo_err e) then it\<lparr>it_err := cgo_err e\<rparr> else it),
                             w1)
                         else
                           (case expand_leaf_size t cs of
                              Inl err \<Rightarrow> Return (False, it\<lparr>it_err := Some err\<rparr>, w1)
                            | Inr leafSize \<Rightarrow>
                                (case make_bytes leafSize of
                                   Fault f \<Rightarrow> Fault f
                                 | Return leaf0 \<Rightarrow>
                                     Next_lookup K
                                       (it\<lparr>it_key := Some (write_buf key0 out),
                                           it_leaf := Some leaf0\<rparr>)
                                       w1))))
         | Some key \<Rightarrow>
             if key = [] then Fault IndexOutOfRange
             else
               (case cgo_call K (GetNextKey (it_fd it) key) w of
                  ((r, e, out), w1) \<Rightarrow>
                    (let it1 = it\<lparr>it_key := Some (write_buf key out)\<rparr> in
                     if r \<noteq> 0 then
                       Return (False,
                         (if \<not> IsNotExist (cgo_err e) then it1\<lparr>it_err := cgo_err e\<rparr> else it1),
                         w1)
                     else Next_lookup K it1 w1))))"

text \<open>\<open>TableIterator.Err\<close> (table.go 479-481).\<close>

definition Err :: "TableIterator \<Rightarrow> go_error option" where
  "Err it = it_err it"

text \<open>
  A caller that calls \<open>Next\<close> \<open>n\<close> times in a row, whatever the results: the results in
  order, and the iterator and the world after the last call.
\<close>

fun Next_times ::
  "nat \<Rightarrow> 'k kernel \<Rightarrow> table \<Rightarrow> cpus \<Rightarrow> TableIterator \<Rightarrow> 'k world \<Rightarrow>
     (bool list \<times> TableIterator \<times> 'k world) outcome"
where
  "Next_times 0 K t cs it w = Return ([], it, w)"
| "Next_times (Suc n) K t cs it w =
     (case Next K t cs it w of
        Fault f \<Rightarrow> Fault f
      | Return (b, it1, w1) \<Rightarrow>
          (case Next_times n K t cs it1 w1 of
             Fault f \<Rightarrow> Fault f
           | Return (bs, it2, w2) \<Rightarrow> Return (b # bs, it2, w2)))"

section \<open>A kernel map\<close>

text \<open>
  Modelled from the spec: the kernel side of a map, which is not code of the repository.
  The spec describes it as a store of entries with create-or-replace writes (``writes
  unconditionally''), a lookup that fails when ``the kernel reports no entry or the key
  size mismatches'', a delete that ``fails if the key does not exist'', a walk by the
  first-key / next-key protocol, and, for a per-CPU map, ``one leaf value per processor
  core, concatenated into a single larger leaf''. \<open>km_value_size\<close> is the number of bytes
  of one entry as user space exchanges it: the leaf size, times the number of CPUs for a
  per-CPU map.
\<close>

record kmap =
  km_fd :: int
  km_key_size :: nat
  km_value_size :: nat
  km_capacity :: nat
  km_entries :: "(bytes \<times> bytes) list"

definition EBADF :: errno where
  "EBADF = 9"

definition EINVAL :: errno where
  "EINVAL = 22"

definition E2BIG :: errno where
  "E2BIG = 7"

fun key_after :: "bytes list \<Rightarrow> bytes \<Rightarrow> bytes option" where
  "key_after [] k = None"
| "key_after (x # xs) k =
     (if x = k then (case xs of [] \<Rightarrow> None | y # ys \<Rightarrow> Some y) else key_after xs k)"

fun kernel_map :: "kmap \<Rightarrow> kcall \<Rightarrow> kresp \<times> kmap" where
  "kernel_map m (LookupElem f key buf) =
     (if f \<noteq> km_fd m then ((- 1, EBADF, []), m)
      else if length key \<noteq> km_key_size m then ((- 1, EINVAL, []), m)
      else
        (case map_of (km_entries m) key of
           None \<Rightarrow> ((- 1, ENOENT, []), m)
         | Some v \<Rightarrow> ((0, 0, v), m)))"
| "kernel_map m (UpdateElem f key leaf flags) =
     (if f \<noteq> km_fd m then ((- 1, EBADF, []), m)
      else if length key \<noteq> km_key_size m \<or> length leaf \<noteq> km_value_size m \<or> flags \<noteq> 0
        then ((- 1, EINVAL, []), m)
      else if map_of (km_entries m) key = None \<and> km_capacity m \<le> length (km_entries m)
        then ((- 1, E2BIG, []), m)
      else ((0, 0, []), m\<lparr>km_entries := AList.update key leaf (km_entries m)\<rparr>))"
| "kernel_map m (DeleteElem f key) =
     (if f \<noteq> km_fd m then ((- 1, EBADF, []), m)
      else if length key \<noteq> km_key_size m then ((- 1, EINVAL, []), m)
      else
        (case map_of (km_entries m) key of
           None \<Rightarrow> ((- 1, ENOENT, []), m)
         | Some v \<Rightarrow> ((0, 0, []), m\<lparr>km_entries := AList.delete key (km_entries m)\<rparr>)))"
| "kernel_map m (GetFirstKey f buf n) =
     (if f \<noteq> km_fd m then ((- 1, EBADF, []), m)
      else
        (case km_entries m of
           [] \<Rightarrow> ((- 1, ENOENT, []), m)
         | (k, v) # es \<Rightarrow> ((0, 0, k), m)))"
| "kernel_map m (GetNextKey f key) =
     (if f \<noteq> km_fd m then ((- 1, EBADF, []), m)
      else if map_of (km_entries m) key = None then
        (case km_entries m of
           [] \<Rightarrow> ((- 1, ENOENT, []), m)
         | (k, v) # es \<Rightarrow> ((0, 0, k), m))
      else
        (case key_after (map fst (km_entries m)) key of
           None \<Rightarrow> ((- 1, ENOENT, []), m)
         | Some k \<Rightarrow> ((0, 0, k), m)))"

text \<open>
  The descriptor of a table agrees with a kernel map for a given answer of
  \<open>cpupossible.Get()\<close>: same descriptor, same key size, and the entry size of the kernel is
  the leaf size of the call, computed without overflow.
\<close>

definition percpu :: "table \<Rightarrow> bool" where
  "percpu t = (map_type t = BPF_MAP_TYPE_PERCPU_HASH \<or> map_type t = BPF_MAP_TYPE_PERCPU_ARRAY)"

definition describes :: "table \<Rightarrow> nat list \<Rightarrow> kmap \<Rightarrow> bool" where
  "describes t l m =
     (table_fd_id t = km_fd m \<and> unat (key_size t) = km_key_size m \<and>
      km_value_size m = unat (leaf_size t) * (if percpu t then length l else 1) \<and>
      km_value_size m \<le> maxAlloc)"

section \<open>Symbols\<close>

text \<open>
  libbcc hands out C strings by pointer. The model keeps a store from addresses to the
  strings that are live; 0 is \<open>NULL\<close>. \<open>C.GoString\<close> copies the string behind a pointer
  (the empty string for \<open>NULL\<close>); reading an address that holds no live string is the
  fault \<open>UseAfterFree\<close>.
\<close>

type_synonym cptr = nat
type_synonym cheap = "cptr \<Rightarrow> string option"

record bcc_symbol =
  sym_name :: cptr
  sym_demangle_name :: cptr
  sym_module :: cptr
  sym_offset :: "64 word"

definition GoString :: "cheap \<Rightarrow> cptr \<Rightarrow> string outcome" where
  "GoString h p =
     (if p = 0 then Return []
      else (case h p of None \<Rightarrow> Fault UseAfterFree | Some str \<Rightarrow> Return str))"

text \<open>
  \<open>bcc_symbol_free_demangle_name\<close> of libbcc releases the demangled name of a symbol when
  it is a buffer of its own: not \<open>NULL\<close> and not the pointer \<open>name\<close> itself.
\<close>

definition bcc_symbol_free_demangle_name :: "cheap \<Rightarrow> bcc_symbol \<Rightarrow> cheap" where
  "bcc_symbol_free_demangle_name h symb =
     (if sym_demangle_name symb \<noteq> 0 \<and> sym_demangle_name symb \<noteq> sym_name symb
      then h(sym_demangle_name symb := None)
      else h)"

text \<open>\<open>C.int(pid)\<close>: a Go \<open>int\<close> cut to 32 bits, read as signed.\<close>

definition C_int :: "int \<Rightarrow> int" where
  "C_int n = sint (word_of_int n :: 32 word)"

text \<open>
  \<open>fmt.Sprintf\<close> with \<open>%x\<close> on an unsigned value: lower-case hexadecimal digits, most
  significant first; \<open>%0Nx\<close> pads with zeros on the left to at least \<open>N\<close> characters.
\<close>

definition hex_digit :: "nat \<Rightarrow> char" where
  "hex_digit d = ''0123456789abcdef'' ! (d mod 16)"

function hex :: "nat \<Rightarrow> string" where
  "hex n = (if n < 16 then [hex_digit n] else hex (n div 16) @ [hex_digit (n mod 16)])"
  by pat_completeness auto
termination
  by (relation "measure (\<lambda>n. n)") auto

declare hex.simps [simp del]

definition pad0 :: "nat \<Rightarrow> string \<Rightarrow> string" where
  "pad0 width str = replicate (width - length str) (CHR ''0'') @ str"

text \<open>\<open>Symbolizer.formatAddress\<close> and \<open>Symbolizer.formatModuleName\<close> (lines 89-95).\<close>

definition formatAddress :: "uintptr \<Rightarrow> string" where
  "formatAddress addr = ''0x'' @ pad0 16 (hex (unat addr))"

definition formatModuleName :: "string \<Rightarrow> uintptr \<Rightarrow> string" where
  "formatModuleName module offset = ''[m] '' @ module @ '' + 0x'' @ pad0 8 (hex (unat offset))"

text \<open>
  The \<open>Symbolizer\<close> (lines 37-40) keeps one resolver handle per pid. The resolver is a
  parameter: \<open>symcache_new\<close> answers \<open>bcc_symcache_new\<close> with a handle, and
  \<open>symcache_resolve\<close> answers \<open>bcc_symcache_resolve\<close> for a handle, an address and the
  store of C strings with its result code, the symbol it filled in and the store with the
  strings it allocated.
\<close>

record Symbolizer =
  bccSymbolCache :: "int \<Rightarrow> cptr option"

record resolver =
  symcache_new :: "int \<Rightarrow> cptr"
  symcache_resolve :: "cptr \<Rightarrow> 64 word \<Rightarrow> cheap \<Rightarrow> int \<times> bcc_symbol \<times> cheap"

definition NewSymbolizer :: Symbolizer where
  "NewSymbolizer = \<lparr>bccSymbolCache = (\<lambda>pid. None)\<rparr>"

text \<open>\<open>Symbolizer.getBCCSymbolCache\<close> (lines 77-87).\<close>

definition getBCCSymbolCache :: "resolver \<Rightarrow> Symbolizer \<Rightarrow> int \<Rightarrow> cptr \<times> Symbolizer" where
  "getBCCSymbolCache R s pid =
     (case bccSymbolCache s pid of
        Some c \<Rightarrow> (c, s)
      | None \<Rightarrow>
          (let c = symcache_new R (C_int pid)
           in (c, s\<lparr>bccSymbolCache := (bccSymbolCache s)(pid := Some c)\<rparr>)))"

text \<open>
  \<open>Symbolizer.SymbolOrAddrIfUnknown\<close> (lines 54-68). On a direct match the code copies
  the pointer \<open>demangle_name\<close>, calls \<open>bcc_symbol_free_demangle_name\<close>, and only then
  converts the pointer with \<open>C.GoString\<close>.
\<close>

definition SymbolOrAddrIfUnknown ::
  "resolver \<Rightarrow> Symbolizer \<Rightarrow> cheap \<Rightarrow> int \<Rightarrow> uintptr \<Rightarrow> (string \<times> Symbolizer \<times> cheap) outcome"
where
  "SymbolOrAddrIfUnknown R s h pid addr =
     (case getBCCSymbolCache R s pid of
        (c, s1) \<Rightarrow>
          (case symcache_resolve R c addr h of
             (resolved, symbol, h1) \<Rightarrow>
               if resolved = 0 then
                 (let name = sym_demangle_name symbol;
                      h2 = bcc_symbol_free_demangle_name h1 symbol
                  in (case GoString h2 name of
                        Fault f \<Rightarrow> Fault f
                      | Return str \<Rightarrow> Return (str, s1, h2)))
               else
                 (case GoString h1 (sym_module symbol) of
                    Fault f \<Rightarrow> Fault f
                  | Return module \<Rightarrow>
                      if module \<noteq> [] then
                        Return (formatModuleName module (sym_offset symbol), s1, h1)
                      else Return (formatAddress addr, s1, h1))))"

text \<open>
  \<open>Table.GetAddrSymbol\<close> (table.go 343-363), the sibling of \<open>SymbolOrAddrIfUnknown\<close> on a
  table: it converts \<open>demangle_name\<close> first and releases it afterwards.
\<close>

definition GetAddrSymbol ::
  "resolver \<Rightarrow> (int \<Rightarrow> cptr option) \<Rightarrow> cheap \<Rightarrow> uintptr \<Rightarrow> int \<Rightarrow>
     (string \<times> (int \<Rightarrow> cptr option) \<times> cheap) outcome"
where
  "GetAddrSymbol R pidSym h addr pid0 =
     (let pid = (if pid0 < 0 then - 1 else pid0);
          (c, pidSym1) =
            (case pidSym pid of
               Some c \<Rightarrow> (c, pidSym)
             | None \<Rightarrow>
                 (let c = symcache_new R (C_int pid) in (c, pidSym(pid := Some c))))
      in (case symcache_resolve R c addr h of
            (ret, symb, h1) \<Rightarrow>
              if ret < 0 then Return (''[UNKNOWN]'', pidSym1, h1)
              else
                (case GoString h1 (sym_demangle_name symb) of
                   Fault f \<Rightarrow> Fault f
                 | Return str \<Rightarrow> Return (str, pidSym1, bcc_symbol_free_demangle_name h1 symb))))"

text \<open>
  \<open>bccResolveName\<close> (lines 157-179). \<open>resolve_name\<close> answers \<open>bcc_symcache_resolve_name\<close>
  with its result code and the address it stores through the pointer \<open>&addrC\<close>; the
  calls into libbcc are recorded, the deferred release last.
\<close>

datatype bcall =
    SymcacheNew int
  | SymcacheResolveName cptr string string
  | FreeSymcache cptr int

definition bccResolveName ::
  "(int \<Rightarrow> cptr) \<Rightarrow> (cptr \<Rightarrow> string \<Rightarrow> string \<Rightarrow> 64 word \<Rightarrow> int \<times> 64 word) \<Rightarrow>
     string \<Rightarrow> string \<Rightarrow> int \<Rightarrow> (go_error + 64 word) \<times> bcall list"
where
  "bccResolveName new resolve_name module symname pid =
     (let pidC = C_int pid;
          c = new pidC;
          addr = (0 :: 64 word);
          addrC = addr;
          (res, addrC') = resolve_name c module symname addrC;
          calls = [SymcacheNew pidC, SymcacheResolveName c module symname, FreeSymcache c pidC]
      in if res < 0 then (Inl (ErrLocateSymbol symname module), calls)
         else (Inr addr, calls))"

section \<open>The symbol index of a module\<close>

text \<open>
  \<open>symbolCache\<close> (lines 102-111) is one process-wide value; its lock serialises the
  calls, so the model runs them one after the other on the state. The enumeration
  \<open>bcc_foreach_function_symbol\<close> is a parameter: for its own state and a module it
  answers with the symbols it passes to the callback, in order, and its result code. The
  world records the modules for which the enumeration was invoked.
\<close>

type_synonym symbolAddress = "string \<times> 64 word"

record symbolCache =
  cache :: "string \<Rightarrow> symbolAddress list option"
  currentModule :: string

type_synonym 'e enumeration = "'e \<Rightarrow> string \<Rightarrow> (symbolAddress list \<times> int) \<times> 'e"
type_synonym 'e eworld = "string list \<times> 'e"

definition initialCache :: symbolCache where
  "initialCache = \<lparr>cache = (\<lambda>m. None), currentModule = []\<rparr>"

text \<open>Indexing a Go map of slices: \<open>nil\<close>, the empty slice, for a missing key.\<close>

definition slot :: "symbolCache \<Rightarrow> string \<Rightarrow> symbolAddress list" where
  "slot sc m = (case cache sc m of None \<Rightarrow> [] | Some l \<Rightarrow> l)"

text \<open>\<open>foreach_symbol_callback\<close> (lines 224-226).\<close>

definition foreach_symbol_callback :: "symbolCache \<Rightarrow> symbolAddress \<Rightarrow> symbolCache" where
  "foreach_symbol_callback sc sa =
     sc\<lparr>cache := (cache sc)(currentModule sc := Some (slot sc (currentModule sc) @ [sa]))\<rparr>"

text \<open>\<open>bccForeachSymbol\<close> (lines 228-236).\<close>

definition bccForeachSymbol ::
  "'e enumeration \<Rightarrow> string \<Rightarrow> symbolCache \<Rightarrow> 'e eworld \<Rightarrow> go_error option \<times> symbolCache \<times> 'e eworld"
where
  "bccForeachSymbol E m sc w =
     (case E (snd w) m of
        ((syms, res), e') \<Rightarrow>
          (let sc' = foldl foreach_symbol_callback sc syms;
               w' = (fst w @ [m], e')
           in if res < 0 then (Some (ErrListSymbols m), sc', w') else (None, sc', w')))"

text \<open>\<open>getUserSymbolsAndAddresses\<close> (lines 184-200).\<close>

definition getUserSymbolsAndAddresses ::
  "'e enumeration \<Rightarrow> string \<Rightarrow> symbolCache \<Rightarrow> 'e eworld \<Rightarrow>
     (go_error + symbolAddress list) \<times> symbolCache \<times> 'e eworld"
where
  "getUserSymbolsAndAddresses E m sc w =
     (case cache sc m of
        Some l \<Rightarrow> (Inr (slot sc m), sc, w)
      | None \<Rightarrow>
          (let sc1 = sc\<lparr>cache := (cache sc)(m := Some []), currentModule := m\<rparr>
           in (case bccForeachSymbol E m sc1 w of
                 (Some err, sc2, w2) \<Rightarrow> (Inl err, sc2, w2)
               | (None, sc2, w2) \<Rightarrow> (Inr (slot sc2 m), sc2, w2))))"

text \<open>
  \<open>matchUserSymbols\<close> (lines 202-218). \<open>regexp.Compile\<close> is a parameter: the text of its
  error, or the predicate \<open>MatchString\<close> of the compiled expression.
\<close>

type_synonym compile = "string \<Rightarrow> string + (string \<Rightarrow> bool)"

definition matchUserSymbols ::
  "compile \<Rightarrow> 'e enumeration \<Rightarrow> string \<Rightarrow> string \<Rightarrow> symbolCache \<Rightarrow> 'e eworld \<Rightarrow>
     (go_error + symbolAddress list) \<times> symbolCache \<times> 'e eworld"
where
  "matchUserSymbols C E m match sc w =
     (case C match of
        Inl err \<Rightarrow> (Inl (ErrInvalidRegex match err), sc, w)
      | Inr r \<Rightarrow>
          (case getUserSymbolsAndAddresses E m sc w of
             (Inl err, sc1, w1) \<Rightarrow> (Inl err, sc1, w1)
           | (Inr symbols, sc1, w1) \<Rightarrow> (Inr (filter (\<lambda>symb. r (fst symb)) symbols), sc1, w1)))"

text \<open>
  A run of the index: a request lists the symbols of a module or matches a pattern
  against them; the run keeps the state and the world and drops the results.
\<close>

datatype request = ListSymbols string | MatchSymbols string string

fun serve ::
  "compile \<Rightarrow> 'e enumeration \<Rightarrow> request \<Rightarrow> symbolCache \<times> 'e eworld \<Rightarrow> symbolCache \<times> 'e eworld"
where
  "serve C E (ListSymbols m) (sc, w) = snd (getUserSymbolsAndAddresses E m sc w)"
| "serve C E (MatchSymbols m match) (sc, w) = snd (matchUserSymbols C E m match sc w)"

definition run ::
  "compile \<Rightarrow> 'e enumeration \<Rightarrow> request list \<Rightarrow> symbolCache \<times> 'e eworld \<Rightarrow> symbolCache \<times> 'e eworld"
where
  "run C E rs st = foldl (\<lambda>st r. serve C E r st) st rs"

section \<open>Example tables\<close>

text \<open>
  Three formatters: one writes the text \<open>x\<close> and its terminator and reports success, one
  fills the whole buffer with the letter and reports success, one writes the same text
  and reports a failure. \<open>example_table\<close> is a hash table on descriptor 3 with keys of 4
  bytes and leaves of 8 bytes that formats keys and leaves with the given formatter.
\<close>

definition fmt_x :: "bytes \<Rightarrow> nat \<Rightarrow> int \<times> bytes" where
  "fmt_x k n = (0, [120, 0])"

definition fmt_fill :: "bytes \<Rightarrow> nat \<Rightarrow> int \<times> bytes" where
  "fmt_fill k n = (0, replicate n 120)"

definition fmt_fail :: "bytes \<Rightarrow> nat \<Rightarrow> int \<times> bytes" where
  "fmt_fail k n = (- 1, [120, 0])"

definition example_table :: "(bytes \<Rightarrow> nat \<Rightarrow> int \<times> bytes) \<Rightarrow> table" where
  "example_table f =
     \<lparr>fd = 3, table_fd_id = 3, key_size = 4, leaf_size = 8, map_type = 1,
      key_snprintf = f, leaf_snprintf = f\<rparr>"

section \<open>Reading the trace; example kernels\<close>

text \<open>The delete calls of a world, in the order they were issued.\<close>

fun is_delete :: "kcall \<Rightarrow> bool" where
  "is_delete (DeleteElem f key) = True"
| "is_delete c = False"

definition deletes :: "'k world \<Rightarrow> kcall list" where
  "deletes w = filter is_delete (fst w)"

text \<open>
  The addresses of a stack leaf as the spec words them: the entries of the array of 127
  addresses up to, and without, the first zero.
\<close>

definition stack_addrs :: "bytes \<Rightarrow> uintptr list" where
  "stack_addrs leaf =
     takeWhile (\<lambda>a. a \<noteq> 0)
       (map (\<lambda>i. le_word (take 8 (drop (8 * i) leaf))) [0..<BPF_MAX_STACK_DEPTH])"

text \<open>
  A stack map of the layout of \<open>struct stacktrace_t\<close> (127 addresses, 1016 bytes), a
  kernel that holds one stack of the single address \<open>0xAA\<close> under every id and accepts
  every other call, and a kernel that has no entry for any id.
\<close>

definition stack_table :: table where
  "stack_table =
     \<lparr>fd = 4, table_fd_id = 4, key_size = 4, leaf_size = 1016, map_type = 7,
      key_snprintf = fmt_x, leaf_snprintf = fmt_x\<rparr>"

fun one_stack_kernel :: "unit \<Rightarrow> kcall \<Rightarrow> kresp \<times> unit" where
  "one_stack_kernel s (LookupElem f key buf) = ((0, 0, [0xAA, 0, 0, 0, 0, 0, 0, 0]), s)"
| "one_stack_kernel s c = ((0, 0, []), s)"

fun no_entry_kernel :: "unit \<Rightarrow> kcall \<Rightarrow> kresp \<times> unit" where
  "no_entry_kernel s (UpdateElem f key leaf flags) = ((0, 0, []), s)"
| "no_entry_kernel s c = ((- 1, ENOENT, []), s)"

text \<open>
  A kernel whose entries vanish between the walk and the read, as under a concurrent
  delete: it answers the first-key request with the key \<open>[1, 0, 0, 0]\<close> and the next-key
  request with \<open>[2, 0, 0, 0]\<close>, and every lookup with \<open>ENOENT\<close>.
\<close>

fun vanishing_kernel :: "unit \<Rightarrow> kcall \<Rightarrow> kresp \<times> unit" where
  "vanishing_kernel s (GetFirstKey f buf n) = ((0, 0, [1, 0, 0, 0]), s)"
| "vanishing_kernel s (GetNextKey f key) = ((0, 0, [2, 0, 0, 0]), s)"
| "vanishing_kernel s c = ((- 1, ENOENT, []), s)"

text \<open>
  A kernel that walks like the one above and rejects every lookup with \<open>EINVAL\<close>.
\<close>

fun rejecting_kernel :: "unit \<Rightarrow> kcall \<Rightarrow> kresp \<times> unit" where
  "rejecting_kernel s (GetFirstKey f buf n) = ((0, 0, [1, 0, 0, 0]), s)"
| "rejecting_kernel s (GetNextKey f key) = ((0, 0, [2, 0, 0, 0]), s)"
| "rejecting_kernel s c = ((- 1, EINVAL, []), s)"

text \<open>An iterator that stands on the key \<open>[1, 0, 0, 0]\<close> of \<open>example_table\<close>.\<close>

definition positioned :: TableIterator where
  "positioned =
     \<lparr>it_fd = 3, it_err = None, it_key = Some [1, 0, 0, 0],
      it_leaf = Some [0, 0, 0, 0, 0, 0, 0, 0]\<rparr>"

definition empty_map :: kmap where
  "empty_map =
     \<lparr>km_fd = 3, km_key_size = 4, km_value_size = 8, km_capacity = 16, km_entries = []\<rparr>"

text \<open>
  A per-CPU hash table with leaves of 8 bytes, and its kernel map on a host with two
  possible CPUs: 16 bytes per entry.
\<close>

definition percpu_table :: table where
  "percpu_table =
     \<lparr>fd = 3, table_fd_id = 3, key_size = 4, leaf_size = 8, map_type = 5,
      key_snprintf = fmt_x, leaf_snprintf = fmt_x\<rparr>"

definition empty_percpu_map :: kmap where
  "empty_percpu_map =
     \<lparr>km_fd = 3, km_key_size = 4, km_value_size = 16, km_capacity = 16, km_entries = []\<rparr>"

section \<open>Invariant and examples of the symbol index\<close>

text \<open>
  Every module for which the enumeration was invoked has an entry in the cache, and no
  module was enumerated twice.
\<close>

definition logged_cached :: "symbolCache \<times> 'e eworld \<Rightarrow> bool" where
  "logged_cached st =
     (distinct (fst (snd st)) \<and> set (fst (snd st)) \<subseteq> dom (cache (fst st)))"

text \<open>
  An enumeration that passes the one symbol \<open>foo\<close> to the callback and then reports a
  failure, and a stand-in for \<open>regexp.Compile\<close> on the patterns of the form \<open>^text\<close>: it
  compiles them to the test for that prefix and rejects every other pattern.
\<close>

definition failing_enum :: "unit \<Rightarrow> string \<Rightarrow> (symbolAddress list \<times> int) \<times> unit" where
  "failing_enum e m = (([(''foo'', 1)], - 1), e)"

fun anchored_compile :: "string \<Rightarrow> string + (string \<Rightarrow> bool)" where
  "anchored_compile [] = Inl ''unsupported''"
| "anchored_compile (c # q) =
     (if c = CHR ''^'' then Inr (\<lambda>str. take (length q) str = q) else Inl ''unsupported'')"

text \<open>The symbol index after the failed enumeration of \<open>/bin/app\<close> from the initial state.\<close>

definition failed_index :: symbolCache where
  "failed_index =
     initialCache\<lparr>cache := (cache initialCache)(''/bin/app'' := Some [(''foo'', 1)]),
       currentModule := ''/bin/app''\<rparr>"

section \<open>Examples of resolvers\<close>

text \<open>
  A resolver for \<open>bcc_symcache_resolve_name\<close> that finds every symbol at the address
  \<open>0x401000\<close>, and a resolver that reports a direct match on a C++ symbol: the mangled
  name at address 100, the demangled name in a buffer of its own at address 200, the
  module at address 300.
\<close>

definition found_at_401000 :: "cptr \<Rightarrow> string \<Rightarrow> string \<Rightarrow> 64 word \<Rightarrow> int \<times> 64 word" where
  "found_at_401000 c module symname a = (0, 0x401000)"

definition cxx_symbol :: bcc_symbol where
  "cxx_symbol = \<lparr>sym_name = 100, sym_demangle_name = 200, sym_module = 300, sym_offset = 16\<rparr>"

definition cxx_resolver :: resolver where
  "cxx_resolver =
     \<lparr>symcache_new = (\<lambda>pid. 7),
      symcache_resolve =
        (\<lambda>c addr h. (0, cxx_symbol,
           h(100 := Some ''_ZN3foo3barEv'', 200 := Some ''foo::bar()'', 300 := Some ''/bin/app'')))\<rparr>"

section \<open>Lemmas on the helpers\<close>

lemma length_write_buf: "length (write_buf buf out) = length buf"
  by (simp add: write_buf_def)

lemma IndexByte_ge: "- 1 \<le> IndexByte bs c"
  by (induction bs) (auto simp: Let_def)

lemma IndexByte_absent: "c \<notin> set bs \<Longrightarrow> IndexByte bs c = - 1"
  by (induction bs) (auto simp: Let_def)

lemma IndexByte_present:
  "c \<in> set bs \<Longrightarrow> IndexByte bs c = int (length (takeWhile (\<lambda>b. b \<noteq> c) bs))"
  by (induction bs) (auto simp: Let_def IndexByte_absent)

lemma take_IndexByte:
  assumes "c \<in> set bs"
  shows "take (nat (IndexByte bs c)) bs = takeWhile (\<lambda>b. b \<noteq> c) bs"
proof -
  have "nat (IndexByte bs c) = length (takeWhile (\<lambda>b. b \<noteq> c) bs)"
    using assms by (simp add: IndexByte_present)
  then show ?thesis
    by (metis takeWhile_eq_take)
qed

lemma char_of_120: "char_of (120 :: nat) = CHR ''x''"
  by code_simp

section \<open>Formatting keys and leaves\<close>

lemma KeyBytesToStr_outcomes:
  "KeyBytesToStr t key =
     (if key = [] then Fault IndexOutOfRange
      else if fst (key_snprintf t key (length key * 8)) \<noteq> 0
        then Return (Inl (ErrFormatKey (fst (key_snprintf t key (length key * 8)))))
      else if 0 \<in> set (key_buffer t key)
        then Return (Inr (string_of_bytes (takeWhile (\<lambda>b. b \<noteq> 0) (key_buffer t key))))
      else Fault SliceBoundsOutOfRange)"
proof (cases "key = []")
  case True
  then show ?thesis by (simp add: KeyBytesToStr_def)
next
  case False
  obtain res written where fw: "key_snprintf t key (length key * 8) = (res, written)"
    by (cases "key_snprintf t key (length key * 8)")
  let ?buf = "key_buffer t key"
  have buf: "?buf = write_buf (replicate (length key * 8) 0) written"
    by (simp add: key_buffer_def fw)
  show ?thesis
  proof (cases "res = 0")
    case r0: True
    show ?thesis
    proof (cases "0 \<in> set ?buf")
      case True
      then have "IndexByte ?buf 0 = int (length (takeWhile (\<lambda>b. b \<noteq> 0) ?buf))"
        by (rule IndexByte_present)
      moreover have "length (takeWhile (\<lambda>b. b \<noteq> 0) ?buf) \<le> length ?buf"
        by (rule length_takeWhile_le)
      moreover have "take (nat (IndexByte ?buf 0)) ?buf = takeWhile (\<lambda>b. b \<noteq> 0) ?buf"
        using True by (rule take_IndexByte)
      ultimately show ?thesis
        using False r0 True fw buf by (simp add: KeyBytesToStr_def Let_def)
    next
      case nz: False
      then have "IndexByte ?buf 0 = - 1"
        by (rule IndexByte_absent)
      then show ?thesis
        using False r0 nz fw buf by (simp add: KeyBytesToStr_def Let_def)
    qed
  next
    case failed: False
    show ?thesis
      using False failed fw by (simp add: KeyBytesToStr_def Let_def)
  qed
qed

lemma LeafBytesToStr_outcomes:
  "LeafBytesToStr t leaf =
     (if leaf = [] then Fault IndexOutOfRange
      else if fst (leaf_snprintf t leaf (length leaf * 8)) \<noteq> 0
        then Return (Inl (ErrFormatLeaf (fst (leaf_snprintf t leaf (length leaf * 8)))))
      else if 0 \<in> set (leaf_buffer t leaf)
        then Return (Inr (string_of_bytes (takeWhile (\<lambda>b. b \<noteq> 0) (leaf_buffer t leaf))))
      else Fault SliceBoundsOutOfRange)"
proof (cases "leaf = []")
  case True
  then show ?thesis by (simp add: LeafBytesToStr_def)
next
  case False
  obtain res written where fw: "leaf_snprintf t leaf (length leaf * 8) = (res, written)"
    by (cases "leaf_snprintf t leaf (length leaf * 8)")
  let ?buf = "leaf_buffer t leaf"
  have buf: "?buf = write_buf (replicate (length leaf * 8) 0) written"
    by (simp add: leaf_buffer_def fw)
  show ?thesis
  proof (cases "res = 0")
    case r0: True
    show ?thesis
    proof (cases "0 \<in> set ?buf")
      case True
      then have "IndexByte ?buf 0 = int (length (takeWhile (\<lambda>b. b \<noteq> 0) ?buf))"
        by (rule IndexByte_present)
      moreover have "length (takeWhile (\<lambda>b. b \<noteq> 0) ?buf) \<le> length ?buf"
        by (rule length_takeWhile_le)
      moreover have "take (nat (IndexByte ?buf 0)) ?buf = takeWhile (\<lambda>b. b \<noteq> 0) ?buf"
        using True by (rule take_IndexByte)
      ultimately show ?thesis
        using False r0 True fw buf by (simp add: LeafBytesToStr_def Let_def)
    next
      case nz: False
      then have "IndexByte ?buf 0 = - 1"
        by (rule IndexByte_absent)
      then show ?thesis
        using False r0 nz fw buf by (simp add: LeafBytesToStr_def Let_def)
    qed
  next
    case failed: False
    show ?thesis
      using False failed fw by (simp add: LeafBytesToStr_def Let_def)
  qed
qed

text \<open>
  Claim C10, as stated: the two functions are total only when the input is non-empty and
  the formatter leaves a zero byte in the buffer, and then they return the text before the
  first zero byte. The statement overlooks the result code of the formatter. With the
  key \<open>[1]\<close> and a formatter that writes \<open>x\<close> and a terminator but reports -1, the
  precondition holds and \<open>KeyBytesToStr\<close> returns the formatting error, not the text.
\<close>

theorem KeyBytesToStr_failed_formatter_counterexample:
  "[1] \<noteq> ([] :: bytes) \<and>
   0 \<in> set (key_buffer (example_table fmt_fail) [1]) \<and>
   string_of_bytes (takeWhile (\<lambda>b. b \<noteq> 0) (key_buffer (example_table fmt_fail) [1])) = ''x'' \<and>
   KeyBytesToStr (example_table fmt_fail) [1] = Return (Inl (ErrFormatKey (- 1)))"
  by (simp add: KeyBytesToStr_outcomes key_buffer_def example_table_def fmt_fail_def
      write_buf_def string_of_bytes_def char_of_120)

text \<open>
  Claim C10, amended: \<open>KeyBytesToStr\<close> and \<open>LeafBytesToStr\<close> panic on an empty input
  (index out of range), and on a non-empty input when the formatter reports success and
  leaves no zero byte in the buffer of 8 times the input length (slice bounds out of
  range). On a non-empty input, when the formatter reports success and the buffer holds a
  zero byte, they return the text before the first zero byte; when the formatter reports
  a failure, they return the formatting error and do not panic.
\<close>

theorem BytesToStr_panics_and_results:
  "(key = [] \<longrightarrow> KeyBytesToStr t key = Fault IndexOutOfRange) \<and>
   (key \<noteq> [] \<and> fst (key_snprintf t key (length key * 8)) = 0 \<and> 0 \<in> set (key_buffer t key) \<longrightarrow>
      KeyBytesToStr t key =
        Return (Inr (string_of_bytes (takeWhile (\<lambda>b. b \<noteq> 0) (key_buffer t key))))) \<and>
   (key \<noteq> [] \<and> fst (key_snprintf t key (length key * 8)) = 0 \<and> 0 \<notin> set (key_buffer t key) \<longrightarrow>
      KeyBytesToStr t key = Fault SliceBoundsOutOfRange) \<and>
   (key \<noteq> [] \<and> fst (key_snprintf t key (length key * 8)) \<noteq> 0 \<longrightarrow>
      KeyBytesToStr t key =
        Return (Inl (ErrFormatKey (fst (key_snprintf t key (length key * 8)))))) \<and>
   (leaf = [] \<longrightarrow> LeafBytesToStr t leaf = Fault IndexOutOfRange) \<and>
   (leaf \<noteq> [] \<and> fst (leaf_snprintf t leaf (length leaf * 8)) = 0 \<and> 0 \<in> set (leaf_buffer t leaf) \<longrightarrow>
      LeafBytesToStr t leaf =
        Return (Inr (string_of_bytes (takeWhile (\<lambda>b. b \<noteq> 0) (leaf_buffer t leaf))))) \<and>
   (leaf \<noteq> [] \<and> fst (leaf_snprintf t leaf (length leaf * 8)) = 0 \<and> 0 \<notin> set (leaf_buffer t leaf) \<longrightarrow>
      LeafBytesToStr t leaf = Fault SliceBoundsOutOfRange) \<and>
   (leaf \<noteq> [] \<and> fst (leaf_snprintf t leaf (length leaf * 8)) \<noteq> 0 \<longrightarrow>
      LeafBytesToStr t leaf =
        Return (Inl (ErrFormatLeaf (fst (leaf_snprintf t leaf (length leaf * 8))))))"
  by (simp add: KeyBytesToStr_outcomes LeafBytesToStr_outcomes)

theorem BytesToStr_panics_and_results_witness:
  "KeyBytesToStr (example_table fmt_x) [] = Fault IndexOutOfRange \<and>
   KeyBytesToStr (example_table fmt_x) [1] = Return (Inr ''x'') \<and>
   KeyBytesToStr (example_table fmt_fill) [1] = Fault SliceBoundsOutOfRange \<and>
   KeyBytesToStr (example_table fmt_fail) [1] = Return (Inl (ErrFormatKey (- 1))) \<and>
   LeafBytesToStr (example_table fmt_x) [] = Fault IndexOutOfRange \<and>
   LeafBytesToStr (example_table fmt_x) [1] = Return (Inr ''x'') \<and>
   LeafBytesToStr (example_table fmt_fill) [1] = Fault SliceBoundsOutOfRange \<and>
   LeafBytesToStr (example_table fmt_fail) [1] = Return (Inl (ErrFormatLeaf (- 1)))"
  using BytesToStr_panics_and_results [of "[]" "example_table fmt_x" "[]"]
    BytesToStr_panics_and_results [of "[1]" "example_table fmt_x" "[1]"]
    BytesToStr_panics_and_results [of "[1]" "example_table fmt_fill" "[1]"]
    BytesToStr_panics_and_results [of "[1]" "example_table fmt_fail" "[1]"]
  by (simp add: key_buffer_def leaf_buffer_def example_table_def fmt_x_def fmt_fill_def
      fmt_fail_def write_buf_def string_of_bytes_def char_of_120)

section \<open>Stack traces: the loop and the calls of \<open>GetP\<close>\<close>

lemma stack_loop_eq:
  "8 * BPF_MAX_STACK_DEPTH \<le> length leaf \<Longrightarrow> i \<le> BPF_MAX_STACK_DEPTH \<Longrightarrow>
    stack_loop leaf i res =
      Return (res @ takeWhile (\<lambda>a. a \<noteq> 0)
        (map (\<lambda>i. le_word (take 8 (drop (8 * i) leaf))) [i..<BPF_MAX_STACK_DEPTH]))"
proof (induction leaf i res rule: stack_loop.induct)
  case (1 leaf i res)
  show ?case
  proof (cases "i < BPF_MAX_STACK_DEPTH")
    case True
    then have "8 * i + 8 \<le> length leaf"
      using "1.prems" by linarith
    then have ip: "stack_ip leaf i = Some (le_word (take 8 (drop (8 * i) leaf)))"
      by (simp add: stack_ip_def)
    have up: "[i..<BPF_MAX_STACK_DEPTH] = i # [i + 1..<BPF_MAX_STACK_DEPTH]"
      using True by (simp add: upt_conv_Cons)
    show ?thesis
    proof (cases "le_word (take 8 (drop (8 * i) leaf)) = 0")
      case True
      then show ?thesis
        using \<open>i < BPF_MAX_STACK_DEPTH\<close> ip up by (simp add: stack_loop.simps [of leaf i res])
    next
      case False
      have "stack_loop leaf (i + 1) (res @ [le_word (take 8 (drop (8 * i) leaf))]) =
        Return ((res @ [le_word (take 8 (drop (8 * i) leaf))]) @ takeWhile (\<lambda>a. a \<noteq> 0)
          (map (\<lambda>i. le_word (take 8 (drop (8 * i) leaf))) [i + 1..<BPF_MAX_STACK_DEPTH]))"
        using "1.IH" [OF True ip False "1.prems"(1)] True by simp
      then show ?thesis
        using \<open>i < BPF_MAX_STACK_DEPTH\<close> ip up False
        by (simp add: stack_loop.simps [of leaf i res])
    qed
  next
    case False
    then have ge: "BPF_MAX_STACK_DEPTH \<le> i" by simp
    have "stack_loop leaf i res = Return res"
      using False by (subst stack_loop.simps) simp
    then show ?thesis using ge by simp
  qed
qed

lemma stack_loop_addrs:
  "8 * BPF_MAX_STACK_DEPTH \<le> length leaf \<Longrightarrow> stack_loop leaf 0 [] = Return (stack_addrs leaf)"
  using stack_loop_eq [of leaf 0 "[]"] by (simp add: stack_addrs_def)

lemma GetP_trace:
  "GetP K t cs key w = Return (r, w1) \<Longrightarrow>
     (fst w1 = fst w \<or> (\<exists>buf. fst w1 = fst w @ [LookupElem (table_fd_id t) key buf]))"
  by (auto simp: GetP_def cgo_call_def split: sum.splits outcome.splits if_splits prod.splits option.splits)

lemma GetP_deletes:
  "GetP K t cs key w = Return (r, w1) \<Longrightarrow> deletes w1 = deletes w"
  by (auto simp: deletes_def dest!: GetP_trace)

lemma GetP_length:
  "GetP K t cs key w = Return (Inr leaf, w1) \<Longrightarrow>
     \<exists>n. expand_leaf_size t cs = Inr n \<and> length leaf = unat n"
  by (auto simp: GetP_def cgo_call_def make_bytes_def length_write_buf
      split: sum.splits outcome.splits if_splits prod.splits option.splits)

lemma le_word_zeros: "le_word (replicate n 0) = 0"
  by (induction n) (simp_all add: le_word_def)

lemma one_stack_leaf:
  "write_buf (replicate 1016 0) [0xAA, 0, 0, 0, 0, 0, 0, 0] =
     0xAA # 0 # 0 # 0 # 0 # 0 # 0 # 0 # replicate 1008 0"
  by (simp add: write_buf_def)

lemma one_stack_addrs:
  "stack_loop (0xAA # 0 # 0 # 0 # 0 # 0 # 0 # 0 # replicate 1008 0) 0 [] = Return [0xAA]"
proof -
  let ?leaf = "0xAA # 0 # 0 # 0 # 0 # 0 # 0 # 0 # replicate 1008 (0 :: byte)"
  have ip0: "stack_ip ?leaf 0 = Some 0xAA"
    by (simp add: stack_ip_def le_word_def)
  have ip1: "stack_ip ?leaf (Suc 0) = Some 0"
    by (simp add: stack_ip_def le_word_zeros)
  have "stack_loop ?leaf (Suc 0) [0xAA] = Return [0xAA]"
    by (subst stack_loop.simps) (simp add: BPF_MAX_STACK_DEPTH_def ip1)
  then show ?thesis
    by (subst stack_loop.simps) (simp add: BPF_MAX_STACK_DEPTH_def ip0)
qed

lemma stack_table_fd: "fd stack_table = 4"
  by (simp add: stack_table_def)

lemma one_stack_GetP:
  "GetP one_stack_kernel stack_table (Inr [0]) key ([], ()) =
     Return (Inr (0xAA # 0 # 0 # 0 # 0 # 0 # 0 # 0 # replicate 1008 0),
       ([LookupElem 4 key (replicate 1016 0)], ()))"
  by (simp add: GetP_def expand_leaf_size_def stack_table_def make_bytes_def maxAlloc_def
      cgo_call_def cgo_err_def one_stack_leaf BPF_MAP_TYPE_PERCPU_HASH_def
      BPF_MAP_TYPE_PERCPU_ARRAY_def)

lemma no_entry_GetP:
  "GetP no_entry_kernel stack_table (Inr [0]) key ([], ()) =
     Return (Inl (Errno ENOENT), ([LookupElem 4 key (replicate 1016 0)], ()))"
  by (simp add: GetP_def expand_leaf_size_def stack_table_def make_bytes_def maxAlloc_def
      cgo_call_def cgo_err_def ENOENT_def BPF_MAP_TYPE_PERCPU_HASH_def
      BPF_MAP_TYPE_PERCPU_ARRAY_def)

section \<open>\<open>GetStackAddr\<close>\<close>

text \<open>
  Claim C1, as stated: for every stack id less than or equal to zero \<open>GetStackAddr\<close>
  returns an empty sequence and issues no delete, even when \<open>clear\<close> is true. The guard of
  the function is \<open>stackId < 0\<close>: the id 0 is looked up. Against a kernel that holds a
  stack under the id 0, \<open>GetStackAddr(0, true)\<close> returns the address of that stack and
  issues the delete.
\<close>

theorem GetStackAddr_zero_id_counterexample:
  "(0 :: int) \<le> 0 \<and>
   GetStackAddr one_stack_kernel stack_table (Inr [0]) 0 True ([], ()) =
     Return ([0xAA],
       ([LookupElem 4 (int_bytes 0) (replicate 1016 0), DeleteElem 4 (int_bytes 0)], ()))"
  by (simp add: GetStackAddr_def one_stack_GetP one_stack_addrs Remove_def cgo_call_def
      stack_table_fd)

text \<open>
  Claim C1, amended: for every stack id less than zero \<open>GetStackAddr\<close> returns an empty
  sequence and issues no call at all against the map (the trace and the kernel are
  unchanged: no lookup, no delete), whatever the \<open>clear\<close> flag.
\<close>

theorem GetStackAddr_negative_id:
  "stackId < 0 \<Longrightarrow> GetStackAddr K t cs stackId clear w = Return ([], w)"
  by (simp add: GetStackAddr_def)

theorem GetStackAddr_negative_id_witness:
  "(- 1 :: int) < 0 \<and>
   GetStackAddr one_stack_kernel stack_table (Inr [0]) (- 1) True ([], ()) = Return ([], ([], ()))"
  using GetStackAddr_negative_id [of "- 1" one_stack_kernel stack_table "Inr [0]" True "([], ())"]
  by simp

text \<open>
  Claim C2, as stated: for a stack id greater than zero and \<open>clear\<close> true, a delete is
  issued after the read in every case, also when the read fails. \<open>GetStackAddr\<close> returns
  as soon as \<open>GetP\<close> reports an error: against a kernel with no entry for the id 5 the
  only call is the lookup.
\<close>

theorem GetStackAddr_failed_read_counterexample:
  "(0 :: int) < 5 \<and>
   GetStackAddr no_entry_kernel stack_table (Inr [0]) 5 True ([], ()) =
     Return ([], ([LookupElem 4 (int_bytes 5) (replicate 1016 0)], ()))"
  by (simp add: GetStackAddr_def no_entry_GetP)

text \<open>
  Claim C2, amended: for every stack id greater than zero and \<open>clear\<close> true, when the read
  succeeds (\<open>GetP\<close> returns a leaf, here of at least the 1016 bytes of the stack layout)
  \<open>GetStackAddr\<close> returns the addresses of the leaf up to the first zero and a delete for
  that stack id, on the descriptor of the handle, is the last call issued, after the
  read; when the read fails, it returns an empty sequence and issues no delete.
\<close>

theorem GetStackAddr_clear:
  "(0 < stackId \<and> GetP K t cs (int_bytes stackId) w = Return (Inr leaf, w1) \<and>
      8 * BPF_MAX_STACK_DEPTH \<le> length leaf \<longrightarrow>
      GetStackAddr K t cs stackId True w =
        Return (stack_addrs leaf,
          (fst w1 @ [DeleteElem (fd t) (int_bytes stackId)],
           snd (K (snd w1) (DeleteElem (fd t) (int_bytes stackId)))))) \<and>
   (0 < stackId \<and> GetP K t cs (int_bytes stackId) w = Return (Inl err, w1) \<longrightarrow>
      GetStackAddr K t cs stackId True w = Return ([], w1) \<and> deletes w1 = deletes w)"
  by (auto simp: GetStackAddr_def stack_loop_addrs Remove_def cgo_call_def GetP_deletes
      split: prod.splits)

theorem GetStackAddr_clear_witness:
  "GetStackAddr one_stack_kernel stack_table (Inr [0]) 5 True ([], ()) =
     Return ([0xAA],
       ([LookupElem 4 (int_bytes 5) (replicate 1016 0), DeleteElem 4 (int_bytes 5)], ())) \<and>
   GetStackAddr no_entry_kernel stack_table (Inr [0]) 5 True ([], ()) =
     Return ([], ([LookupElem 4 (int_bytes 5) (replicate 1016 0)], ())) \<and>
   deletes ([LookupElem 4 (int_bytes 5) (replicate 1016 0)], ()) = []"
proof -
  let ?leaf = "0xAA # 0 # 0 # 0 # 0 # 0 # 0 # 0 # replicate 1008 (0 :: byte)"
  let ?w1 = "([LookupElem 4 (int_bytes 5) (replicate 1016 0)], ())"
  have len: "8 * BPF_MAX_STACK_DEPTH \<le> length ?leaf"
    by (simp add: BPF_MAX_STACK_DEPTH_def)
  have "Return (stack_addrs ?leaf) = Return [0xAA]"
    using stack_loop_addrs [OF len] one_stack_addrs by simp
  then have addrs: "stack_addrs ?leaf = [0xAA]"
    by simp
  have found: "GetStackAddr one_stack_kernel stack_table (Inr [0]) 5 True ([], ()) =
      Return ([0xAA],
        ([LookupElem 4 (int_bytes 5) (replicate 1016 0), DeleteElem 4 (int_bytes 5)], ()))"
    using GetStackAddr_clear [where stackId = 5 and K = one_stack_kernel and t = stack_table
        and cs = "Inr [0]" and w = "([], ())" and leaf = ?leaf and ?w1.0 = ?w1]
      one_stack_GetP [of "int_bytes 5"] len addrs
    by (simp add: stack_table_fd)
  have missing: "GetStackAddr no_entry_kernel stack_table (Inr [0]) 5 True ([], ()) =
      Return ([], ?w1) \<and> deletes ?w1 = deletes ([], ())"
    using GetStackAddr_clear [where stackId = 5 and K = no_entry_kernel and t = stack_table
        and cs = "Inr [0]" and w = "([], ())" and err = "Errno ENOENT" and ?w1.0 = ?w1]
      no_entry_GetP [of "int_bytes 5"]
    by simp
  show ?thesis
    using found missing by (simp add: deletes_def)
qed

section \<open>The iterator\<close>

lemma make_bytes_ok:
  "unat n \<le> maxAlloc \<Longrightarrow> make_bytes n = Return (replicate (unat n) 0)"
  by (simp add: make_bytes_def)

lemma write_buf_Nil: "(write_buf buf out = []) = (buf = [])"
  using length_write_buf [of buf out] by (metis length_0_conv)

lemma Next_first_key_failed:
  assumes "it_err it = None" "it_key it = None"
    and "0 < unat (key_size t)" "unat (key_size t) \<le> maxAlloc"
    and "K (snd w) (GetFirstKey (it_fd it) (replicate (unat (key_size t)) 0) (key_size t)) =
           ((r, e, out), s')"
    and "r \<noteq> 0"
  shows "Next K t cs it w =
      Return (False, (if \<not> IsNotExist (cgo_err e) then it\<lparr>it_err := cgo_err e\<rparr> else it),
        (fst w @ [GetFirstKey (it_fd it) (replicate (unat (key_size t)) 0) (key_size t)], s'))"
  using assms by (simp add: Next_def make_bytes_ok cgo_call_def)

lemma Next_next_key_failed:
  assumes "it_err it = None" "it_key it = Some key" "key \<noteq> []"
    and "K (snd w) (GetNextKey (it_fd it) key) = ((r, e, out), s')"
    and "r \<noteq> 0"
  shows "Next K t cs it w =
      Return (False,
        (if \<not> IsNotExist (cgo_err e)
         then it\<lparr>it_key := Some (write_buf key out), it_err := cgo_err e\<rparr>
         else it\<lparr>it_key := Some (write_buf key out)\<rparr>),
        (fst w @ [GetNextKey (it_fd it) key], s'))"
  using assms by (simp add: Next_def cgo_call_def Let_def)

lemma IsNotExist_ENOENT: "IsNotExist (cgo_err ENOENT)"
  by (simp add: cgo_err_def ENOENT_def)

lemma Next_lookup_failed:
  assumes "it_key it = Some key" "key \<noteq> []" "it_leaf it = Some leaf" "leaf \<noteq> []"
    and "K (snd w) (LookupElem (it_fd it) key leaf) = ((r, e, out), s')"
    and "r \<noteq> 0" "e \<noteq> 0"
  shows "Next_lookup K it w =
      Return (False,
        it\<lparr>it_leaf := Some (write_buf leaf out),
           it_err := Some (if e = ENOENT then ErrIterationFailed else Errno e)\<rparr>,
        (fst w @ [LookupElem (it_fd it) key leaf], s'))"
  using assms by (simp add: Next_lookup_def cgo_call_def Let_def cgo_err_def)

lemma Next_failed: "it_err it \<noteq> None \<Longrightarrow> Next K t cs it w = Return (False, it, w)"
  by (simp add: Next_def)

lemma Next_times_failed:
  "it_err it \<noteq> None \<Longrightarrow> Next_times n K t cs it w = Return (replicate n False, it, w)"
  by (induction n) (simp_all add: Next_failed)


lemma Next_first_key_ok:
  assumes "it_err it = None" "it_key it = None"
    and "0 < unat (key_size t)" "unat (key_size t) \<le> maxAlloc"
    and "K (snd w) (GetFirstKey (it_fd it) (replicate (unat (key_size t)) 0) (key_size t)) =
           ((0, e, out), s')"
    and "expand_leaf_size t cs = Inr n" "unat n \<le> maxAlloc"
  shows "Next K t cs it w =
      Next_lookup K
        (it\<lparr>it_key := Some (write_buf (replicate (unat (key_size t)) 0) out),
            it_leaf := Some (replicate (unat n) 0)\<rparr>)
        (fst w @ [GetFirstKey (it_fd it) (replicate (unat (key_size t)) 0) (key_size t)], s')"
  using assms by (simp add: Next_def make_bytes_ok cgo_call_def)

lemma Next_next_key_ok:
  assumes "it_err it = None" "it_key it = Some key" "key \<noteq> []"
    and "K (snd w) (GetNextKey (it_fd it) key) = ((0, e, out), s')"
  shows "Next K t cs it w =
      Next_lookup K (it\<lparr>it_key := Some (write_buf key out)\<rparr>)
        (fst w @ [GetNextKey (it_fd it) key], s')"
  using assms by (simp add: Next_def cgo_call_def Let_def)


lemma example_table_sizes:
  "unat (key_size (example_table f)) = 4" "unat (leaf_size (example_table f)) = 8"
  "table_fd_id (example_table f) = 3" "key_size (example_table f) = 4"
  "expand_leaf_size (example_table f) cs = Inr 8"
  by (simp_all add: example_table_def expand_leaf_size_def BPF_MAP_TYPE_PERCPU_HASH_def
      BPF_MAP_TYPE_PERCPU_ARRAY_def)

lemma maxAlloc_ge: "4 \<le> maxAlloc" "8 \<le> maxAlloc"
  by (simp_all add: maxAlloc_def)

text \<open>
  Claim C7: not-found is never surfaced as an iteration error. For a fresh iterator on a
  table with a key size between 1 and \<open>maxAlloc\<close>, when the kernel answers the first-key
  request with a non-zero result and \<open>ENOENT\<close> (as it does on an empty map), \<open>Next\<close>
  returns false after that one call and \<open>Err\<close> is \<open>nil\<close>. For an iterator that stands on a
  key, when the kernel answers the next-key request with a non-zero result and \<open>ENOENT\<close>,
  \<open>Next\<close> returns false after that one call and \<open>Err\<close> is \<open>nil\<close>. On the kernel map of
  the model with no entries, the first \<open>Next\<close> of \<open>Iter\<close> returns false and \<open>Err\<close> is \<open>nil\<close>.
\<close>

theorem Next_not_found_is_clean:
  "(it_err it = None \<and> it_key it = None \<and> 0 < unat (key_size t) \<and> unat (key_size t) \<le> maxAlloc \<and>
      K (snd w) (GetFirstKey (it_fd it) (replicate (unat (key_size t)) 0) (key_size t)) =
        ((r, ENOENT, out), s') \<and> r \<noteq> 0 \<longrightarrow>
      Next K t cs it w =
        Return (False, it,
          (fst w @ [GetFirstKey (it_fd it) (replicate (unat (key_size t)) 0) (key_size t)], s')) \<and>
      Err it = None) \<and>
   (it_err it = None \<and> it_key it = Some key \<and> key \<noteq> [] \<and>
      K (snd w) (GetNextKey (it_fd it) key) = ((r, ENOENT, out), s') \<and> r \<noteq> 0 \<longrightarrow>
      Next K t cs it w =
        Return (False, it\<lparr>it_key := Some (write_buf key out)\<rparr>,
          (fst w @ [GetNextKey (it_fd it) key], s')) \<and>
      Err (it\<lparr>it_key := Some (write_buf key out)\<rparr>) = None) \<and>
   (table_fd_id t = km_fd m \<and> km_entries m = [] \<and>
      0 < unat (key_size t) \<and> unat (key_size t) \<le> maxAlloc \<longrightarrow>
      Next kernel_map t cs (Iter t) (tr, m) =
        Return (False, Iter t,
          (tr @ [GetFirstKey (table_fd_id t) (replicate (unat (key_size t)) 0) (key_size t)], m)) \<and>
      Err (Iter t) = None)"
proof (intro conjI impI)
  assume a: "it_err it = None \<and> it_key it = None \<and> 0 < unat (key_size t) \<and>
      unat (key_size t) \<le> maxAlloc \<and>
      K (snd w) (GetFirstKey (it_fd it) (replicate (unat (key_size t)) 0) (key_size t)) =
        ((r, ENOENT, out), s') \<and> r \<noteq> 0"
  then show "Next K t cs it w =
        Return (False, it,
          (fst w @ [GetFirstKey (it_fd it) (replicate (unat (key_size t)) 0) (key_size t)], s'))"
    using Next_first_key_failed [of it t K w r ENOENT out s' cs]
    by (simp add: IsNotExist_ENOENT)
  from a show "Err it = None" by (simp add: Err_def)
next
  assume a: "it_err it = None \<and> it_key it = Some key \<and> key \<noteq> [] \<and>
      K (snd w) (GetNextKey (it_fd it) key) = ((r, ENOENT, out), s') \<and> r \<noteq> 0"
  then show "Next K t cs it w =
        Return (False, it\<lparr>it_key := Some (write_buf key out)\<rparr>,
          (fst w @ [GetNextKey (it_fd it) key], s'))"
    using Next_next_key_failed [of it key K w r ENOENT out s' t cs]
    by (simp add: IsNotExist_ENOENT)
  from a show "Err (it\<lparr>it_key := Some (write_buf key out)\<rparr>) = None" by (simp add: Err_def)
next
  assume a: "table_fd_id t = km_fd m \<and> km_entries m = [] \<and>
      0 < unat (key_size t) \<and> unat (key_size t) \<le> maxAlloc"
  then show "Next kernel_map t cs (Iter t) (tr, m) =
        Return (False, Iter t,
          (tr @ [GetFirstKey (table_fd_id t) (replicate (unat (key_size t)) 0) (key_size t)], m))"
    using Next_first_key_failed [of "Iter t" t kernel_map "(tr, m)" "- 1" ENOENT "[]" m cs]
    by (simp add: IsNotExist_ENOENT Iter_def)
  show "Err (Iter t) = None" by (simp add: Err_def Iter_def)
qed


theorem Next_not_found_is_clean_witness:
  "Next no_entry_kernel (example_table fmt_x) (Inr [0]) (Iter (example_table fmt_x)) ([], ()) =
     Return (False, Iter (example_table fmt_x), ([GetFirstKey 3 (replicate 4 0) 4], ())) \<and>
   Err (Iter (example_table fmt_x)) = None \<and>
   Next no_entry_kernel (example_table fmt_x) (Inr [0]) positioned ([], ()) =
     Return (False, positioned, ([GetNextKey 3 [1, 0, 0, 0]], ())) \<and>
   Err positioned = None \<and>
   Next kernel_map (example_table fmt_x) (Inr [0]) (Iter (example_table fmt_x)) ([], empty_map) =
     Return (False, Iter (example_table fmt_x), ([GetFirstKey 3 (replicate 4 0) 4], empty_map))"
proof -
  let ?T = "example_table fmt_x"
  have pos: "positioned\<lparr>it_key := Some (write_buf [1, 0, 0, 0] [])\<rparr> = positioned"
    by (simp add: positioned_def write_buf_def)
  have fresh: "Next no_entry_kernel ?T (Inr [0]) (Iter ?T) ([], ()) =
      Return (False, Iter ?T, ([GetFirstKey 3 (replicate 4 0) 4], ())) \<and> Err (Iter ?T) = None"
    using Next_not_found_is_clean [where it = "Iter ?T" and t = ?T and K = no_entry_kernel
        and w = "([], ())" and r = "- 1" and out = "[]" and s' = "()" and cs = "Inr [0]"]
    by (simp add: example_table_sizes maxAlloc_ge Iter_def)
  have standing: "Next no_entry_kernel ?T (Inr [0]) positioned ([], ()) =
      Return (False, positioned, ([GetNextKey 3 [1, 0, 0, 0]], ())) \<and> Err positioned = None"
    using Next_not_found_is_clean [where it = positioned and t = ?T and K = no_entry_kernel
        and w = "([], ())" and r = "- 1" and out = "[]" and s' = "()" and cs = "Inr [0]"
        and key = "[1, 0, 0, 0]"] pos
    by (simp add: positioned_def)
  have empty: "Next kernel_map ?T (Inr [0]) (Iter ?T) ([], empty_map) =
      Return (False, Iter ?T, ([GetFirstKey 3 (replicate 4 0) 4], empty_map))"
    using Next_not_found_is_clean [where t = ?T and m = empty_map and tr = "[]"
        and cs = "Inr [0]" and it = "Iter ?T" and K = kernel_map and w = "([], empty_map)"
        and r = "- 1" and out = "[]" and s' = empty_map and key = "[]"]
    by (simp add: example_table_sizes maxAlloc_ge empty_map_def)
  show ?thesis
    using fresh standing empty by simp
qed

text \<open>
  Claim C8, as stated: if the lookup of the leaf of the key just reached fails, the
  iterator records the iteration-inconsistency error \<open>errIterationFailed\<close>. The code
  sets that error and then overwrites it with the error of the kernel unless that error
  is not-found (table.go 456-459). On a kernel that rejects the lookup with \<open>EINVAL\<close>,
  both from a fresh iterator and from one that stands on a key, \<open>Next\<close> returns false and
  \<open>Err\<close> is the error \<open>EINVAL\<close>, not \<open>errIterationFailed\<close>.
\<close>

theorem Next_rejected_lookup_counterexample:
  "Next rejecting_kernel (example_table fmt_x) (Inr [0]) (Iter (example_table fmt_x)) ([], ()) =
     Return (False,
       \<lparr>it_fd = 3, it_err = Some (Errno EINVAL), it_key = Some [1, 0, 0, 0],
        it_leaf = Some [0, 0, 0, 0, 0, 0, 0, 0]\<rparr>,
       ([GetFirstKey 3 [0, 0, 0, 0] 4,
         LookupElem 3 [1, 0, 0, 0] [0, 0, 0, 0, 0, 0, 0, 0]], ())) \<and>
   Next rejecting_kernel (example_table fmt_x) (Inr [0]) positioned ([], ()) =
     Return (False,
       \<lparr>it_fd = 3, it_err = Some (Errno EINVAL), it_key = Some [2, 0, 0, 0],
        it_leaf = Some [0, 0, 0, 0, 0, 0, 0, 0]\<rparr>,
       ([GetNextKey 3 [1, 0, 0, 0],
         LookupElem 3 [2, 0, 0, 0] [0, 0, 0, 0, 0, 0, 0, 0]], ())) \<and>
   Err \<lparr>it_fd = 3, it_err = Some (Errno EINVAL), it_key = Some [2, 0, 0, 0],
        it_leaf = Some [0, 0, 0, 0, 0, 0, 0, 0]\<rparr> \<noteq> Some ErrIterationFailed"
proof -
  have eight: "replicate 8 (0 :: byte) = [0, 0, 0, 0, 0, 0, 0, 0]"
    by (simp add: numeral_eq_Suc)
  have four: "replicate 4 (0 :: byte) = [0, 0, 0, 0]"
    by (simp add: numeral_eq_Suc)
  have ne: "EINVAL \<noteq> ENOENT" and err: "cgo_err EINVAL = Some (Errno EINVAL)"
    by (simp_all add: cgo_err_def EINVAL_def ENOENT_def)
  have fresh:
    "Next rejecting_kernel (example_table fmt_x) (Inr [0]) (Iter (example_table fmt_x)) ([], ()) =
       Return (False,
         \<lparr>it_fd = 3, it_err = Some (Errno EINVAL), it_key = Some [1, 0, 0, 0],
          it_leaf = Some [0, 0, 0, 0, 0, 0, 0, 0]\<rparr>,
         ([GetFirstKey 3 [0, 0, 0, 0] 4,
           LookupElem 3 [1, 0, 0, 0] [0, 0, 0, 0, 0, 0, 0, 0]], ()))"
    by (simp add: Next_def Next_lookup_def Iter_def example_table_sizes make_bytes_ok
        maxAlloc_ge cgo_call_def write_buf_def four eight ne err)
  have standing:
    "Next rejecting_kernel (example_table fmt_x) (Inr [0]) positioned ([], ()) =
       Return (False,
         \<lparr>it_fd = 3, it_err = Some (Errno EINVAL), it_key = Some [2, 0, 0, 0],
          it_leaf = Some [0, 0, 0, 0, 0, 0, 0, 0]\<rparr>,
         ([GetNextKey 3 [1, 0, 0, 0],
           LookupElem 3 [2, 0, 0, 0] [0, 0, 0, 0, 0, 0, 0, 0]], ()))"
    by (simp add: Next_def Next_lookup_def positioned_def cgo_call_def write_buf_def
        ne err)
  show ?thesis
    using fresh standing by (simp add: Err_def)
qed

text \<open>
  Claim C8, amended: when the lookup of the leaf of the key just reached fails (the
  kernel answers with a non-zero result and sets \<open>errno\<close>), both right after the
  first-key request and right after a next-key request, \<open>Next\<close> returns false and the
  iterator enters the failed state with an error that is not \<open>nil\<close> and so distinct from
  clean exhaustion: the iteration-inconsistency error \<open>errIterationFailed\<close> when the
  kernel reports that the key is gone (\<open>ENOENT\<close>), the error of the kernel for any other
  \<open>errno\<close>. The failed state is absorbing: once \<open>Err\<close> is not \<open>nil\<close>, \<open>Next\<close> returns
  false and leaves the iterator and the world as they are, so it issues no kernel call,
  any number of times in a row.
\<close>

theorem Next_failed_lookup_is_absorbing:
  "(it_err it = None \<and> it_key it = None \<and> 0 < unat (key_size t) \<and> unat (key_size t) \<le> maxAlloc \<and>
      K (snd w) (GetFirstKey (it_fd it) (replicate (unat (key_size t)) 0) (key_size t)) =
        ((0, e1, out1), s1) \<and>
      expand_leaf_size t cs = Inr n \<and> 0 < unat n \<and> unat n \<le> maxAlloc \<and>
      K s1 (LookupElem (it_fd it) (write_buf (replicate (unat (key_size t)) 0) out1)
             (replicate (unat n) 0)) = ((r, e, out), s2) \<and>
      r \<noteq> 0 \<and> e \<noteq> 0 \<longrightarrow>
      (\<exists>it' w'. Next K t cs it w = Return (False, it', w') \<and>
         Err it' = Some (if e = ENOENT then ErrIterationFailed else Errno e) \<and>
         Next_times m K t cs it' w' = Return (replicate m False, it', w'))) \<and>
   (it_err it = None \<and> it_key it = Some key \<and> key \<noteq> [] \<and> it_leaf it = Some leaf \<and> leaf \<noteq> [] \<and>
      K (snd w) (GetNextKey (it_fd it) key) = ((0, e1, out1), s1) \<and>
      K s1 (LookupElem (it_fd it) (write_buf key out1) leaf) = ((r, e, out), s2) \<and>
      r \<noteq> 0 \<and> e \<noteq> 0 \<longrightarrow>
      (\<exists>it' w'. Next K t cs it w = Return (False, it', w') \<and>
         Err it' = Some (if e = ENOENT then ErrIterationFailed else Errno e) \<and>
         Next_times m K t cs it' w' = Return (replicate m False, it', w'))) \<and>
   (Err it \<noteq> None \<longrightarrow>
      Next K t cs it w = Return (False, it, w) \<and>
      Next_times m K t cs it w = Return (replicate m False, it, w))"
proof (intro conjI impI)
  assume a: "it_err it = None \<and> it_key it = None \<and> 0 < unat (key_size t) \<and>
      unat (key_size t) \<le> maxAlloc \<and>
      K (snd w) (GetFirstKey (it_fd it) (replicate (unat (key_size t)) 0) (key_size t)) =
        ((0, e1, out1), s1) \<and>
      expand_leaf_size t cs = Inr n \<and> 0 < unat n \<and> unat n \<le> maxAlloc \<and>
      K s1 (LookupElem (it_fd it) (write_buf (replicate (unat (key_size t)) 0) out1)
             (replicate (unat n) 0)) = ((r, e, out), s2) \<and>
      r \<noteq> 0 \<and> e \<noteq> 0"
  let ?key = "write_buf (replicate (unat (key_size t)) 0) out1"
  let ?it1 = "it\<lparr>it_key := Some ?key, it_leaf := Some (replicate (unat n) 0)\<rparr>"
  let ?w1 = "(fst w @ [GetFirstKey (it_fd it) (replicate (unat (key_size t)) 0) (key_size t)], s1)"
  have step: "Next K t cs it w = Next_lookup K ?it1 ?w1"
    using a Next_first_key_ok [of it t K w e1 out1 s1 cs n] by simp
  have key: "?key \<noteq> []"
    using a by (simp add: write_buf_Nil)
  have "Next_lookup K ?it1 ?w1 =
      Return (False,
        ?it1\<lparr>it_leaf := Some (write_buf (replicate (unat n) 0) out),
             it_err := Some (if e = ENOENT then ErrIterationFailed else Errno e)\<rparr>,
        (fst ?w1 @ [LookupElem (it_fd ?it1) ?key (replicate (unat n) 0)], s2))"
    using a key
      Next_lookup_failed [where it = ?it1 and K = K and w = ?w1 and r = r and e = e
        and out = out and s' = s2 and key = ?key and leaf = "replicate (unat n) 0"]
    by simp
  with step show "\<exists>it' w'. Next K t cs it w = Return (False, it', w') \<and>
         Err it' = Some (if e = ENOENT then ErrIterationFailed else Errno e) \<and>
         Next_times m K t cs it' w' = Return (replicate m False, it', w')"
    by (simp add: Err_def Next_times_failed)
next
  assume a: "it_err it = None \<and> it_key it = Some key \<and> key \<noteq> [] \<and> it_leaf it = Some leaf \<and>
      leaf \<noteq> [] \<and>
      K (snd w) (GetNextKey (it_fd it) key) = ((0, e1, out1), s1) \<and>
      K s1 (LookupElem (it_fd it) (write_buf key out1) leaf) = ((r, e, out), s2) \<and>
      r \<noteq> 0 \<and> e \<noteq> 0"
  let ?it1 = "it\<lparr>it_key := Some (write_buf key out1)\<rparr>"
  let ?w1 = "(fst w @ [GetNextKey (it_fd it) key], s1)"
  have step: "Next K t cs it w = Next_lookup K ?it1 ?w1"
    using a Next_next_key_ok [of it key K w e1 out1 s1 t cs] by simp
  have "Next_lookup K ?it1 ?w1 =
      Return (False,
        ?it1\<lparr>it_leaf := Some (write_buf leaf out),
             it_err := Some (if e = ENOENT then ErrIterationFailed else Errno e)\<rparr>,
        (fst ?w1 @ [LookupElem (it_fd ?it1) (write_buf key out1) leaf], s2))"
    using a
      Next_lookup_failed [where it = ?it1 and K = K and w = ?w1 and r = r and e = e
        and out = out and s' = s2 and key = "write_buf key out1" and leaf = leaf]
    by (simp add: write_buf_Nil)
  with step show "\<exists>it' w'. Next K t cs it w = Return (False, it', w') \<and>
         Err it' = Some (if e = ENOENT then ErrIterationFailed else Errno e) \<and>
         Next_times m K t cs it' w' = Return (replicate m False, it', w')"
    by (simp add: Err_def Next_times_failed)
next
  assume "Err it \<noteq> None"
  then have "it_err it \<noteq> None" by (simp add: Err_def)
  then show "Next K t cs it w = Return (False, it, w)"
    and "Next_times m K t cs it w = Return (replicate m False, it, w)"
    by (simp_all add: Next_failed Next_times_failed)
qed

theorem Next_failed_lookup_is_absorbing_witness:
  "(\<exists>it' w'.
      Next vanishing_kernel (example_table fmt_x) (Inr [0]) (Iter (example_table fmt_x)) ([], ()) =
        Return (False, it', w') \<and>
      Err it' = Some ErrIterationFailed \<and>
      Next_times 3 vanishing_kernel (example_table fmt_x) (Inr [0]) it' w' =
        Return ([False, False, False], it', w')) \<and>
   (\<exists>it' w'.
      Next vanishing_kernel (example_table fmt_x) (Inr [0]) positioned ([], ()) =
        Return (False, it', w') \<and>
      Err it' = Some ErrIterationFailed \<and>
      Next_times 3 vanishing_kernel (example_table fmt_x) (Inr [0]) it' w' =
        Return ([False, False, False], it', w')) \<and>
   Next vanishing_kernel (example_table fmt_x) (Inr [0])
     (positioned\<lparr>it_err := Some ErrIterationFailed\<rparr>) ([], ()) =
     Return (False, positioned\<lparr>it_err := Some ErrIterationFailed\<rparr>, ([], ()))"
proof -
  let ?T = "example_table fmt_x"
  have three: "replicate 3 False = [False, False, False]"
    by (simp add: numeral_3_eq_3)
  have fresh: "\<exists>it' w'.
      Next vanishing_kernel ?T (Inr [0]) (Iter ?T) ([], ()) = Return (False, it', w') \<and>
      Err it' = Some ErrIterationFailed \<and>
      Next_times 3 vanishing_kernel ?T (Inr [0]) it' w' = Return ([False, False, False], it', w')"
    using Next_failed_lookup_is_absorbing [where it = "Iter ?T" and t = ?T
        and K = vanishing_kernel and w = "([], ())" and ?e1.0 = 0 and ?out1.0 = "[1, 0, 0, 0]"
        and ?s1.0 = "()" and cs = "Inr [0]" and n = 8 and r = "- 1" and e = ENOENT
        and out = "[]" and ?s2.0 = "()" and m = 3]
    by (simp add: example_table_sizes maxAlloc_ge Iter_def ENOENT_def three)
  have standing: "\<exists>it' w'.
      Next vanishing_kernel ?T (Inr [0]) positioned ([], ()) = Return (False, it', w') \<and>
      Err it' = Some ErrIterationFailed \<and>
      Next_times 3 vanishing_kernel ?T (Inr [0]) it' w' = Return ([False, False, False], it', w')"
    using Next_failed_lookup_is_absorbing [where it = positioned and t = ?T
        and K = vanishing_kernel and w = "([], ())" and ?e1.0 = 0 and ?out1.0 = "[2, 0, 0, 0]"
        and ?s1.0 = "()" and cs = "Inr [0]" and r = "- 1" and e = ENOENT
        and out = "[]" and ?s2.0 = "()" and m = 3 and key = "[1, 0, 0, 0]"
        and leaf = "[0, 0, 0, 0, 0, 0, 0, 0]"]
    by (simp add: positioned_def ENOENT_def three)
  have failed: "Next vanishing_kernel ?T (Inr [0])
      (positioned\<lparr>it_err := Some ErrIterationFailed\<rparr>) ([], ()) =
      Return (False, positioned\<lparr>it_err := Some ErrIterationFailed\<rparr>, ([], ()))"
    using Next_failed_lookup_is_absorbing [where it = "positioned\<lparr>it_err := Some ErrIterationFailed\<rparr>"
        and t = ?T and K = vanishing_kernel and w = "([], ())" and cs = "Inr [0]"]
    by (simp add: Err_def)
  show ?thesis
    using fresh standing failed by simp
qed

section \<open>\<open>Set\<close> followed by \<open>Get\<close>\<close>

lemma unat_mult_of_nat:
  "unat (a :: 64 word) * n < 2 ^ 64 \<Longrightarrow> unat (a * of_nat n) = unat a * n"
  by (simp add: unat_word_ariths unat_of_nat mod_mult_right_eq)

lemma expand_leaf_size_unat:
  assumes "unat (leaf_size t) * (if percpu t then length l else 1) < 2 ^ 64"
  shows "\<exists>n. expand_leaf_size t (Inr l) = Inr n \<and>
           unat n = unat (leaf_size t) * (if percpu t then length l else 1)"
  using assms by (auto simp: expand_leaf_size_def percpu_def unat_mult_of_nat)

lemma write_buf_same_length: "length out = length buf \<Longrightarrow> write_buf buf out = out"
  by (simp add: write_buf_def)

lemma Get_length:
  "Get K t cs key w = Return (Inr leaf, w2) \<Longrightarrow>
     \<exists>n. expand_leaf_size t cs = Inr n \<and> length leaf = unat n"
  by (auto simp: Get_def cgo_call_def make_bytes_def length_write_buf
      split: sum.splits outcome.splits if_splits prod.splits)

lemma Set_accepted:
  assumes "Set kernel_map t key leaf (tr, m) = Return (None, w1)"
  shows "key \<noteq> [] \<and> leaf \<noteq> [] \<and> table_fd_id t = km_fd m \<and> length key = km_key_size m \<and>
         length leaf = km_value_size m \<and>
         w1 = (tr @ [UpdateElem (table_fd_id t) key leaf 0],
               m\<lparr>km_entries := AList.update key leaf (km_entries m)\<rparr>)"
  using assms
  by (auto simp: Set_def cgo_call_def split: if_splits outcome.splits prod.splits)

lemma maxAlloc_lt: "maxAlloc < 2 ^ 64"
  by (simp add: maxAlloc_def)

lemma Get_after_Set:
  assumes d: "describes t l m"
    and s: "Set kernel_map t key leaf (tr, m) = Return (None, w1)"
  shows "Get kernel_map t (Inr l) key w1 =
           Return (Inr leaf, (fst w1 @ [LookupElem (table_fd_id t) key
             (replicate (length leaf) 0)], snd w1))"
proof -
  from Set_accepted [OF s] have key: "key \<noteq> []" and leaf: "leaf \<noteq> []"
    and fd: "table_fd_id t = km_fd m" and lk: "length key = km_key_size m"
    and ll: "length leaf = km_value_size m"
    and w1: "w1 = (tr @ [UpdateElem (table_fd_id t) key leaf 0],
               m\<lparr>km_entries := AList.update key leaf (km_entries m)\<rparr>)"
    by simp_all
  from d have vs: "km_value_size m = unat (leaf_size t) * (if percpu t then length l else 1)"
    and le: "km_value_size m \<le> maxAlloc"
    by (simp_all add: describes_def)
  have "unat (leaf_size t) * (if percpu t then length l else 1) < 2 ^ 64"
    using vs le maxAlloc_lt by linarith
  from expand_leaf_size_unat [OF this] obtain n
    where n: "expand_leaf_size t (Inr l) = Inr n" and un: "unat n = km_value_size m"
    using vs by auto
  have mk: "make_bytes n = Return (replicate (length leaf) 0)"
    using un le ll by (simp add: make_bytes_def)
  have look: "map_of (AList.update key leaf (km_entries m)) key = Some leaf"
    by (simp add: update_conv')
  show ?thesis
    using key leaf fd lk n mk look
    by (simp add: Get_def w1 cgo_call_def write_buf_same_length)
qed

lemma example_Set:
  "Set kernel_map (example_table fmt_x) [1, 0, 0, 0] [1, 2, 3, 4, 5, 6, 7, 8] ([], empty_map) =
     Return (None,
       ([UpdateElem 3 [1, 0, 0, 0] [1, 2, 3, 4, 5, 6, 7, 8] 0],
        empty_map\<lparr>km_entries := [([1, 0, 0, 0], [1, 2, 3, 4, 5, 6, 7, 8])]\<rparr>))"
  by (simp add: Set_def cgo_call_def example_table_def empty_map_def)

lemma percpu_Set:
  "Set kernel_map percpu_table [1, 0, 0, 0] [1, 2, 3, 4, 5, 6, 7, 8, 9, 10, 11, 12, 13, 14, 15, 16]
     ([], empty_percpu_map) =
     Return (None,
       ([UpdateElem 3 [1, 0, 0, 0] [1, 2, 3, 4, 5, 6, 7, 8, 9, 10, 11, 12, 13, 14, 15, 16] 0],
        empty_percpu_map\<lparr>km_entries :=
          [([1, 0, 0, 0], [1, 2, 3, 4, 5, 6, 7, 8, 9, 10, 11, 12, 13, 14, 15, 16])]\<rparr>))"
  by (simp add: Set_def cgo_call_def percpu_table_def empty_percpu_map_def)

lemma example_describes:
  "describes (example_table fmt_x) [0] empty_map" "\<not> percpu (example_table fmt_x)"
  "describes percpu_table [0, 1] empty_percpu_map" "percpu percpu_table"
  by (simp_all add: describes_def percpu_def example_table_def empty_map_def percpu_table_def
      empty_percpu_map_def maxAlloc_def BPF_MAP_TYPE_PERCPU_HASH_def
      BPF_MAP_TYPE_PERCPU_ARRAY_def)

text \<open>
  Claim C5: on the kernel map of the model, for a table whose descriptor agrees with the
  map (generic, or per-CPU with the entry size the leaf size times the number of CPUs), a
  \<open>Set\<close> of a key and a leaf that the kernel accepts (\<open>Set\<close> returns \<open>nil\<close>) followed by a
  \<open>Get\<close> of the same key returns exactly the bytes passed to \<open>Set\<close>. For every kernel, the
  buffer that \<open>Get\<close> returns for a per-CPU table has the length of the leaf size of the
  descriptor times the number of possible CPUs that this call was told (a product that
  fits \<open>C.size_t\<close>), and for any other table the leaf size of the descriptor.
\<close>

theorem Set_Get_round_trip:
  "(describes t l m \<and> Set kernel_map t key leaf (tr, m) = Return (None, w1) \<longrightarrow>
      (\<exists>w2. Get kernel_map t (Inr l) key w1 = Return (Inr leaf, w2))) \<and>
   (Get K t (Inr l) key w = Return (Inr leaf', w2) \<and> percpu t \<and>
      unat (leaf_size t) * length l < 2 ^ 64 \<longrightarrow>
      length leaf' = unat (leaf_size t) * length l) \<and>
   (Get K t cs key w = Return (Inr leaf', w2) \<and> \<not> percpu t \<longrightarrow>
      length leaf' = unat (leaf_size t))"
proof (intro conjI impI)
  assume "describes t l m \<and> Set kernel_map t key leaf (tr, m) = Return (None, w1)"
  then show "\<exists>w2. Get kernel_map t (Inr l) key w1 = Return (Inr leaf, w2)"
    using Get_after_Set by blast
next
  assume a: "Get K t (Inr l) key w = Return (Inr leaf', w2) \<and> percpu t \<and>
      unat (leaf_size t) * length l < 2 ^ 64"
  then obtain n where "expand_leaf_size t (Inr l) = Inr n" "length leaf' = unat n"
    using Get_length by blast
  then show "length leaf' = unat (leaf_size t) * length l"
    using a by (auto simp: expand_leaf_size_def percpu_def unat_mult_of_nat)
next
  assume a: "Get K t cs key w = Return (Inr leaf', w2) \<and> \<not> percpu t"
  then obtain n where "expand_leaf_size t cs = Inr n" "length leaf' = unat n"
    using Get_length by blast
  then show "length leaf' = unat (leaf_size t)"
    using a by (auto simp: expand_leaf_size_def percpu_def)
qed



theorem Set_Get_round_trip_witness:
  "Set kernel_map (example_table fmt_x) [1, 0, 0, 0] [1, 2, 3, 4, 5, 6, 7, 8] ([], empty_map) =
     Return (None,
       ([UpdateElem 3 [1, 0, 0, 0] [1, 2, 3, 4, 5, 6, 7, 8] 0],
        empty_map\<lparr>km_entries := [([1, 0, 0, 0], [1, 2, 3, 4, 5, 6, 7, 8])]\<rparr>)) \<and>
   (\<exists>w2. Get kernel_map (example_table fmt_x) (Inr [0]) [1, 0, 0, 0]
      ([UpdateElem 3 [1, 0, 0, 0] [1, 2, 3, 4, 5, 6, 7, 8] 0],
       empty_map\<lparr>km_entries := [([1, 0, 0, 0], [1, 2, 3, 4, 5, 6, 7, 8])]\<rparr>) =
      Return (Inr [1, 2, 3, 4, 5, 6, 7, 8], w2)) \<and>
   (\<exists>w2. Get kernel_map percpu_table (Inr [0, 1]) [1, 0, 0, 0]
      ([UpdateElem 3 [1, 0, 0, 0] [1, 2, 3, 4, 5, 6, 7, 8, 9, 10, 11, 12, 13, 14, 15, 16] 0],
       empty_percpu_map\<lparr>km_entries :=
         [([1, 0, 0, 0], [1, 2, 3, 4, 5, 6, 7, 8, 9, 10, 11, 12, 13, 14, 15, 16])]\<rparr>) =
      Return (Inr [1, 2, 3, 4, 5, 6, 7, 8, 9, 10, 11, 12, 13, 14, 15, 16], w2)) \<and>
   length [1, 2, 3, 4, 5, 6, 7, 8, 9, 10, 11, 12, 13, 14, 15, 16 :: byte] =
     unat (leaf_size percpu_table) * length [0, 1 :: nat] \<and>
   length [1, 2, 3, 4, 5, 6, 7, 8 :: byte] = unat (leaf_size (example_table fmt_x))"
proof -
  let ?k = "[1, 0, 0, 0] :: bytes"
  let ?v = "[1, 2, 3, 4, 5, 6, 7, 8] :: bytes"
  let ?v2 = "[1, 2, 3, 4, 5, 6, 7, 8, 9, 10, 11, 12, 13, 14, 15, 16] :: bytes"
  let ?w1 = "([UpdateElem 3 ?k ?v 0], empty_map\<lparr>km_entries := [(?k, ?v)]\<rparr>)"
  let ?w1p = "([UpdateElem 3 ?k ?v2 0], empty_percpu_map\<lparr>km_entries := [(?k, ?v2)]\<rparr>)"
  have generic: "\<exists>w2. Get kernel_map (example_table fmt_x) (Inr [0]) ?k ?w1 = Return (Inr ?v, w2)"
    using Set_Get_round_trip [where t = "example_table fmt_x" and l = "[0]" and m = empty_map
        and key = ?k and leaf = ?v and tr = "[]" and ?w1.0 = ?w1 and K = kernel_map
        and w = ?w1 and leaf' = ?v and ?w2.0 = ?w1 and cs = "Inr [0]"]
      example_Set example_describes
    by simp
  have per_cpu: "\<exists>w2. Get kernel_map percpu_table (Inr [0, 1]) ?k ?w1p = Return (Inr ?v2, w2)"
    using Set_Get_round_trip [where t = percpu_table and l = "[0, 1]" and m = empty_percpu_map
        and key = ?k and leaf = ?v2 and tr = "[]" and ?w1.0 = ?w1p and K = kernel_map
        and w = ?w1p and leaf' = ?v2 and ?w2.0 = ?w1p and cs = "Inr [0, 1]"]
      percpu_Set example_describes
    by simp
  from per_cpu obtain w2 where
    g2: "Get kernel_map percpu_table (Inr [0, 1]) ?k ?w1p = Return (Inr ?v2, w2)" ..
  have len2: "length ?v2 = unat (leaf_size percpu_table) * length [0, 1 :: nat]"
    using Set_Get_round_trip [where K = kernel_map and t = percpu_table and l = "[0, 1]"
        and key = ?k and w = ?w1p and leaf' = ?v2 and ?w2.0 = w2 and m = empty_percpu_map
        and leaf = ?v2 and tr = "[]" and ?w1.0 = ?w1p and cs = "Inr [0, 1]"]
      g2 example_describes
    by (simp add: percpu_table_def)
  from generic obtain w3 where
    g1: "Get kernel_map (example_table fmt_x) (Inr [0]) ?k ?w1 = Return (Inr ?v, w3)" ..
  have len1: "length ?v = unat (leaf_size (example_table fmt_x))"
    using Set_Get_round_trip [where K = kernel_map and t = "example_table fmt_x"
        and cs = "Inr [0]" and key = ?k and w = ?w1 and leaf' = ?v and ?w2.0 = w3
        and l = "[0]" and m = empty_map and leaf = ?v and tr = "[]" and ?w1.0 = ?w1]
      g1 example_describes
    by simp
  show ?thesis
    using example_Set generic per_cpu len1 len2 by simp
qed

section \<open>The symbol index\<close>

lemma callbacks_currentModule:
  "currentModule (foldl foreach_symbol_callback sc syms) = currentModule sc"
  by (induction syms arbitrary: sc) (simp_all add: foreach_symbol_callback_def)

lemma callbacks_cache:
  "cache (foldl foreach_symbol_callback sc syms) =
     (if syms = [] then cache sc
      else (cache sc)(currentModule sc := Some (slot sc (currentModule sc) @ syms)))"
proof (induction syms arbitrary: sc)
  case Nil
  then show ?case by simp
next
  case (Cons a syms)
  let ?sc1 = "foreach_symbol_callback sc a"
  have cm: "currentModule ?sc1 = currentModule sc"
    by (simp add: foreach_symbol_callback_def)
  have sl: "slot ?sc1 (currentModule sc) = slot sc (currentModule sc) @ [a]"
    by (simp add: foreach_symbol_callback_def slot_def)
  have c1: "cache ?sc1 = (cache sc)(currentModule sc := Some (slot sc (currentModule sc) @ [a]))"
    by (simp add: foreach_symbol_callback_def)
  show ?case
    using Cons.IH [of ?sc1] by (auto simp: cm sl c1 fun_eq_iff)
qed

lemma bccForeachSymbol_eq:
  assumes "E (snd w) m = ((syms, res), e')"
  shows "bccForeachSymbol E m sc w =
     ((if res < 0 then Some (ErrListSymbols m) else None),
      foldl foreach_symbol_callback sc syms, (fst w @ [m], e'))"
  using assms by (simp add: bccForeachSymbol_def Let_def)

lemma get_cached:
  "cache sc m = Some l \<Longrightarrow> getUserSymbolsAndAddresses E m sc w = (Inr l, sc, w)"
  by (simp add: getUserSymbolsAndAddresses_def slot_def)

lemma get_uncached:
  assumes "cache sc m = None" "E (snd w) m = ((syms, res), e')"
  shows "getUserSymbolsAndAddresses E m sc w =
     ((if res < 0 then Inl (ErrListSymbols m) else Inr syms),
      sc\<lparr>cache := (cache sc)(m := Some syms), currentModule := m\<rparr>,
      (fst w @ [m], e'))"
proof -
  let ?sc1 = "sc\<lparr>cache := (cache sc)(m := Some []), currentModule := m\<rparr>"
  let ?sc2 = "foldl foreach_symbol_callback ?sc1 syms"
  have cm: "currentModule ?sc2 = m"
    by (simp add: callbacks_currentModule)
  have ca: "cache ?sc2 = (cache sc)(m := Some syms)"
    by (simp add: callbacks_cache slot_def)
  have "?sc2 = sc\<lparr>cache := (cache sc)(m := Some syms), currentModule := m\<rparr>"
    using cm ca by (cases ?sc2, cases sc) simp
  then show ?thesis
    using assms
    by (simp add: getUserSymbolsAndAddresses_def bccForeachSymbol_eq [of E w m syms res e']
        slot_def)
qed


lemma get_twice:
  "(case getUserSymbolsAndAddresses E m sc w of
      (r1, sc1, w1) \<Rightarrow> getUserSymbolsAndAddresses E m sc1 w1 = (Inr (slot sc1 m), sc1, w1))"
proof (cases "cache sc m")
  case None
  obtain syms res e' where e: "E (snd w) m = ((syms, res), e')"
    by (metis surj_pair)
  show ?thesis
    using None e by (simp add: get_uncached [of sc m E w syms res e'] get_cached slot_def)
next
  case (Some l)
  then show ?thesis
    by (simp add: get_cached slot_def)
qed

lemma match_state:
  "snd (matchUserSymbols C E m match sc w) =
     (case C match of Inl err \<Rightarrow> (sc, w) | Inr r \<Rightarrow> snd (getUserSymbolsAndAddresses E m sc w))"
  by (simp add: matchUserSymbols_def split: sum.splits prod.splits)

lemma get_logged_cached:
  assumes "logged_cached (sc, w)"
  shows "logged_cached (snd (getUserSymbolsAndAddresses E m sc w))"
proof (cases "cache sc m")
  case None
  obtain syms res e' where e: "E (snd w) m = ((syms, res), e')"
    by (metis surj_pair)
  from None assms have "m \<notin> set (fst w)"
    by (auto simp: logged_cached_def)
  then show ?thesis
    using assms None e
    by (auto simp: get_uncached [of sc m E w syms res e'] logged_cached_def)
next
  case (Some l)
  then show ?thesis
    using assms by (simp add: get_cached)
qed

lemma serve_logged_cached:
  assumes "logged_cached st"
  shows "logged_cached (serve C E r st)"
proof -
  obtain sc w where st: "st = (sc, w)"
    by (metis surj_pair)
  show ?thesis
    using assms get_logged_cached [where sc = sc and w = w and E = E]
    by (cases r) (auto simp: st match_state split: sum.splits)
qed

lemma run_logged_cached: "logged_cached st \<Longrightarrow> logged_cached (run C E rs st)"
  unfolding run_def
  by (induction rs arbitrary: st) (simp_all add: serve_logged_cached)

lemma distinct_count_le_1: "distinct xs \<Longrightarrow> count_list xs x \<le> 1"
  by (induction xs) (auto simp: count_list_0_iff)

lemma get_keeps_entry:
  assumes "cache sc m = Some l"
  shows "case getUserSymbolsAndAddresses E m' sc w of
           (r, sc1, w1) \<Rightarrow> cache sc1 m = Some l \<and> count_list (fst w1) m = count_list (fst w) m"
proof (cases "cache sc m'")
  case None
  obtain syms res e' where e: "E (snd w) m' = ((syms, res), e')"
    by (metis surj_pair)
  from None assms have "m' \<noteq> m" by auto
  then show ?thesis
    using assms None e by (simp add: get_uncached [of sc m' E w syms res e'])
next
  case (Some l')
  then show ?thesis
    using assms by (simp add: get_cached)
qed

lemma serve_keeps_entry:
  assumes "cache sc m = Some l"
  shows "case serve C E r (sc, w) of
           (sc1, w1) \<Rightarrow> cache sc1 m = Some l \<and> count_list (fst w1) m = count_list (fst w) m"
proof (cases r)
  case (ListSymbols m')
  then show ?thesis
    using get_keeps_entry [OF assms, where E = E and m' = m' and w = w]
    by (auto split: prod.splits)
next
  case (MatchSymbols m' match)
  then show ?thesis
    using get_keeps_entry [OF assms, where E = E and m' = m' and w = w] assms
    by (auto simp: match_state split: prod.splits sum.splits)
qed

lemma run_keeps_entry:
  "cache sc m = Some l \<Longrightarrow>
     (case run C E rs (sc, w) of
        (sc1, w1) \<Rightarrow> cache sc1 m = Some l \<and> count_list (fst w1) m = count_list (fst w) m)"
proof (induction rs arbitrary: sc w)
  case Nil
  then show ?case by (simp add: run_def)
next
  case (Cons r rs)
  obtain sc1 w1 where s: "serve C E r (sc, w) = (sc1, w1)"
    by (metis surj_pair)
  with serve_keeps_entry [OF Cons.prems, where C = C and E = E and r = r and w = w]
  have c: "cache sc1 m = Some l" and n: "count_list (fst w1) m = count_list (fst w) m"
    by simp_all
  have "run C E (r # rs) (sc, w) = run C E rs (sc1, w1)"
    by (simp add: run_def s)
  then show ?case
    using Cons.IH [OF c, where w = w1] n by (auto split: prod.splits)
qed

lemma match_cached:
  assumes "cache sc m = Some l"
  shows "matchUserSymbols C E m match sc w =
     (case C match of
        Inl err \<Rightarrow> (Inl (ErrInvalidRegex match err), sc, w)
      | Inr r \<Rightarrow> (Inr (filter (\<lambda>symb. r (fst symb)) l), sc, w))"
  using assms by (simp add: matchUserSymbols_def get_cached split: sum.splits)

lemma failed_index_eq:
  "initialCache\<lparr>cache := (cache initialCache)(''/bin/app'' := Some [(''foo'', 1)]),
     currentModule := ''/bin/app''\<rparr> = failed_index"
  by (simp add: failed_index_def)

lemma failing_enum_eq: "failing_enum (snd ([], ())) ''/bin/app'' = (([(''foo'', 1)], - 1), ())"
  by (simp add: failing_enum_def)

text \<open>
  Claim C6: a second invocation of \<open>getUserSymbolsAndAddresses\<close> for the same module,
  right after the first, returns the cached sequence and leaves the state and the world
  as they are, so the enumeration is not invoked again; and over any run of requests
  (lists and matches, for any modules) from the initial state of the process, the
  enumeration is invoked at most once for every module.
\<close>

theorem ListSymbols_enumerates_once:
  "(case getUserSymbolsAndAddresses E m sc w of
      (r1, sc1, w1) \<Rightarrow> getUserSymbolsAndAddresses E m sc1 w1 = (Inr (slot sc1 m), sc1, w1)) \<and>
   count_list (fst (snd (run C E rs (initialCache, ([], e0))))) m \<le> 1"
proof
  show "case getUserSymbolsAndAddresses E m sc w of
      (r1, sc1, w1) \<Rightarrow> getUserSymbolsAndAddresses E m sc1 w1 = (Inr (slot sc1 m), sc1, w1)"
    by (rule get_twice)
  have "logged_cached (initialCache, ([], e0))"
    by (simp add: logged_cached_def)
  then have "logged_cached (run C E rs (initialCache, ([], e0)))"
    by (rule run_logged_cached)
  then have "distinct (fst (snd (run C E rs (initialCache, ([], e0)))))"
    by (simp add: logged_cached_def)
  then show "count_list (fst (snd (run C E rs (initialCache, ([], e0))))) m \<le> 1"
    by (rule distinct_count_le_1)
qed

text \<open>
  Claim C9, as stated: after a failed enumeration every later \<open>ListSymbols\<close> or
  \<open>MatchSymbols\<close> call for the module returns the cached sequence with no error.
  \<open>matchUserSymbols\<close> filters the cached sequence and compiles its pattern first: after the
  failed enumeration of \<open>/bin/app\<close>, which left the one symbol \<open>foo\<close> in the cache, the
  pattern \<open>^bar\<close> returns the empty sequence, not the cached one, and a pattern that does
  not compile returns an error.
\<close>

theorem MatchSymbols_after_failure_counterexample:
  "getUserSymbolsAndAddresses failing_enum ''/bin/app'' initialCache ([], ()) =
     (Inl (ErrListSymbols ''/bin/app''), failed_index, ([''/bin/app''], ())) \<and>
   slot failed_index ''/bin/app'' = [(''foo'', 1)] \<and>
   matchUserSymbols anchored_compile failing_enum ''/bin/app'' ''^bar'' failed_index
     ([''/bin/app''], ()) = (Inr [], failed_index, ([''/bin/app''], ())) \<and>
   matchUserSymbols anchored_compile failing_enum ''/bin/app'' ''('' failed_index
     ([''/bin/app''], ()) =
     (Inl (ErrInvalidRegex ''('' ''unsupported''), failed_index, ([''/bin/app''], ()))"
proof -
  have none: "cache initialCache ''/bin/app'' = None"
    by (simp add: initialCache_def)
  have first: "getUserSymbolsAndAddresses failing_enum ''/bin/app'' initialCache ([], ()) =
      (Inl (ErrListSymbols ''/bin/app''), failed_index, ([''/bin/app''], ()))"
    using get_uncached [of initialCache "''/bin/app''" failing_enum "([], ())"
        "[(''foo'', 1)]" "- 1" "()"] none failing_enum_eq
    by (simp add: failed_index_eq)
  have c: "cache failed_index ''/bin/app'' = Some [(''foo'', 1)]"
    by (simp add: failed_index_def)
  show ?thesis
    using first c by (simp add: match_cached [OF c] slot_def)
qed

text \<open>
  Claim C9, amended: if the enumeration of the first \<open>ListSymbols\<close> call for a module
  fails, the call returns an error and the symbols passed to the callback before the
  failure (none, or some) stay cached under the module; after any later requests, a
  \<open>ListSymbols\<close> call for the module returns that cached sequence with no error, a
  \<open>MatchSymbols\<close> call for the module returns, with no error, the symbols of the cached
  sequence whose name matches when its pattern compiles and the invalid-pattern error when
  it does not, and the enumeration of the module is never attempted again.
\<close>

theorem failed_enumeration_stays_cached:
  "cache sc m = None \<and> E (snd w) m = ((syms, res), e') \<and> res < 0 \<longrightarrow>
     getUserSymbolsAndAddresses E m sc w =
       (Inl (ErrListSymbols m),
        sc\<lparr>cache := (cache sc)(m := Some syms), currentModule := m\<rparr>, (fst w @ [m], e')) \<and>
     (case run C E rs (sc\<lparr>cache := (cache sc)(m := Some syms), currentModule := m\<rparr>,
                       (fst w @ [m], e')) of
        (sc2, w2) \<Rightarrow>
          getUserSymbolsAndAddresses E m sc2 w2 = (Inr syms, sc2, w2) \<and>
          matchUserSymbols C E m match sc2 w2 =
            (case C match of
               Inl err \<Rightarrow> (Inl (ErrInvalidRegex match err), sc2, w2)
             | Inr r \<Rightarrow> (Inr (filter (\<lambda>symb. r (fst symb)) syms), sc2, w2)) \<and>
          count_list (fst w2) m = count_list (fst w) m + 1)"
proof
  assume a: "cache sc m = None \<and> E (snd w) m = ((syms, res), e') \<and> res < 0"
  let ?sc1 = "sc\<lparr>cache := (cache sc)(m := Some syms), currentModule := m\<rparr>"
  let ?w1 = "(fst w @ [m], e')"
  have first: "getUserSymbolsAndAddresses E m sc w = (Inl (ErrListSymbols m), ?sc1, ?w1)"
    using a get_uncached [of sc m E w syms res e'] by simp
  have c1: "cache ?sc1 m = Some syms"
    by simp
  obtain sc2 w2 where r: "run C E rs (?sc1, ?w1) = (sc2, w2)"
    by (metis surj_pair)
  from run_keeps_entry [OF c1, where C = C and E = E and rs = rs and w = ?w1] r
  have c2: "cache sc2 m = Some syms" and n: "count_list (fst w2) m = count_list (fst w) m + 1"
    by simp_all
  show "getUserSymbolsAndAddresses E m sc w = (Inl (ErrListSymbols m), ?sc1, ?w1) \<and>
     (case run C E rs (?sc1, ?w1) of
        (sc2, w2) \<Rightarrow>
          getUserSymbolsAndAddresses E m sc2 w2 = (Inr syms, sc2, w2) \<and>
          matchUserSymbols C E m match sc2 w2 =
            (case C match of
               Inl err \<Rightarrow> (Inl (ErrInvalidRegex match err), sc2, w2)
             | Inr r \<Rightarrow> (Inr (filter (\<lambda>symb. r (fst symb)) syms), sc2, w2)) \<and>
          count_list (fst w2) m = count_list (fst w) m + 1)"
    using first r c2 n by (simp add: get_cached match_cached)
qed


theorem failed_enumeration_stays_cached_witness:
  "getUserSymbolsAndAddresses failing_enum ''/bin/app'' initialCache ([], ()) =
     (Inl (ErrListSymbols ''/bin/app''), failed_index, ([''/bin/app''], ())) \<and>
   getUserSymbolsAndAddresses failing_enum ''/bin/app'' failed_index ([''/bin/app''], ()) =
     (Inr [(''foo'', 1)], failed_index, ([''/bin/app''], ())) \<and>
   matchUserSymbols anchored_compile failing_enum ''/bin/app'' ''^f'' failed_index
     ([''/bin/app''], ()) = (Inr [(''foo'', 1)], failed_index, ([''/bin/app''], ())) \<and>
   count_list (fst ([''/bin/app''], ())) ''/bin/app'' = 1"
  using failed_enumeration_stays_cached [where sc = initialCache and m = "''/bin/app''"
      and E = failing_enum and w = "([], ())" and syms = "[(''foo'', 1)]" and res = "- 1"
      and e' = "()" and C = anchored_compile and rs = "[]" and match = "''^f''"]
  by (simp add: failed_index_def failing_enum_def run_def initialCache_def)


section \<open>Resolving names and addresses\<close>

lemma C_int_small: "C_int 42 = 42"
  by (simp add: C_int_def)

lemma bccResolveName_result:
  "bccResolveName new resolve_name module symname pid =
     ((if fst (resolve_name (new (C_int pid)) module symname 0) < 0
       then Inl (ErrLocateSymbol symname module) else Inr 0),
      [SymcacheNew (C_int pid), SymcacheResolveName (new (C_int pid)) module symname,
       FreeSymcache (new (C_int pid)) (C_int pid)])"
  by (simp add: bccResolveName_def Let_def split: prod.splits)

text \<open>
  Claim C3: \<open>bccResolveName\<close> creates a resolver handle, asks it for the symbol and
  releases it, and it returns the error when the resolver reports a failure
  (\<open>bccResolveName_result\<close>). On success it does not return the address of the resolver:
  the code passes \<open>&addrC\<close>, a copy, and returns \<open>addr\<close>, which is still 0. With a
  resolver that finds \<open>main\<close> at \<open>0x401000\<close> the result is 0.
\<close>

theorem bccResolveName_drops_the_address:
  "found_at_401000 7 ''/bin/app'' ''main'' 0 = (0, 0x401000) \<and>
   bccResolveName (\<lambda>pid. 7) found_at_401000 ''/bin/app'' ''main'' 42 =
     (Inr 0,
      [SymcacheNew 42, SymcacheResolveName 7 ''/bin/app'' ''main'', FreeSymcache 7 42])"
  by (simp add: bccResolveName_result found_at_401000_def C_int_small)


lemma SymbolOrAddrIfUnknown_module_only:
  assumes "getBCCSymbolCache R s pid = (c, s1)"
    and "symcache_resolve R c addr h = (resolved, symbol, h1)"
    and "resolved \<noteq> 0"
    and "GoString h1 (sym_module symbol) = Return module" "module \<noteq> []"
  shows "SymbolOrAddrIfUnknown R s h pid addr =
    Return (''[m] '' @ module @ '' + 0x'' @ pad0 8 (hex (unat (sym_offset symbol))), s1, h1)"
  using assms by (simp add: SymbolOrAddrIfUnknown_def formatModuleName_def)

lemma SymbolOrAddrIfUnknown_unresolved:
  assumes "getBCCSymbolCache R s pid = (c, s1)"
    and "symcache_resolve R c addr h = (resolved, symbol, h1)"
    and "resolved \<noteq> 0"
    and "GoString h1 (sym_module symbol) = Return []"
  shows "SymbolOrAddrIfUnknown R s h pid addr =
    Return (''0x'' @ pad0 16 (hex (unat addr)), s1, h1)"
  using assms by (simp add: SymbolOrAddrIfUnknown_def formatAddress_def)

lemma SymbolOrAddrIfUnknown_shared_name:
  assumes "getBCCSymbolCache R s pid = (c, s1)"
    and "symcache_resolve R c addr h = (0, symbol, h1)"
    and "sym_demangle_name symbol = sym_name symbol"
    and "GoString h1 (sym_demangle_name symbol) = Return str"
  shows "SymbolOrAddrIfUnknown R s h pid addr = Return (str, s1, h1)"
  using assms
  by (simp add: SymbolOrAddrIfUnknown_def bcc_symbol_free_demangle_name_def Let_def)

lemma SymbolOrAddrIfUnknown_own_buffer:
  assumes "getBCCSymbolCache R s pid = (c, s1)"
    and "symcache_resolve R c addr h = (0, symbol, h1)"
    and "sym_demangle_name symbol \<noteq> 0" "sym_demangle_name symbol \<noteq> sym_name symbol"
  shows "SymbolOrAddrIfUnknown R s h pid addr = Fault UseAfterFree"
  using assms
  by (simp add: SymbolOrAddrIfUnknown_def bcc_symbol_free_demangle_name_def Let_def
      GoString_def)

text \<open>
  Claim C4: the module-only and the unresolved results have the formats the claim gives
  (\<open>SymbolOrAddrIfUnknown_module_only\<close>, \<open>SymbolOrAddrIfUnknown_unresolved\<close>), and a
  direct match returns the name when the demangled name is the pointer \<open>name\<close> itself
  (\<open>SymbolOrAddrIfUnknown_shared_name\<close>). When libbcc demangled the name into a buffer
  of its own, as it does for a C++ symbol, \<open>SymbolOrAddrIfUnknown\<close> releases the buffer
  before it converts it: on the resolver below it reads released memory, where the
  sibling \<open>Table.GetAddrSymbol\<close>, which converts first, returns \<open>foo::bar()\<close>.
\<close>

theorem SymbolOrAddrIfUnknown_reads_released_name:
  "SymbolOrAddrIfUnknown cxx_resolver NewSymbolizer (\<lambda>p. None) 42 0x401000 = Fault UseAfterFree \<and>
   (case GetAddrSymbol cxx_resolver (\<lambda>pid. None) (\<lambda>p. None) 0x401000 42 of
      Fault f \<Rightarrow> False
    | Return (str, pidSym, h) \<Rightarrow> str = ''foo::bar()'')"
  by (simp add: SymbolOrAddrIfUnknown_def GetAddrSymbol_def getBCCSymbolCache_def
      NewSymbolizer_def cxx_resolver_def cxx_symbol_def bcc_symbol_free_demangle_name_def
      GoString_def Let_def)

end
